theory Spec2Isabelle
  imports Complex_Main
begin

section \<open>Plotting utilities of MPAS-Analysis: \<^verbatim>\<open>shared/plot/plotting.py\<close>\<close>

text \<open>
  The module is a set of routines that read options from a configuration object, call
  the plotting library in sequence and, at the end, save and close the figure. The
  embedding keeps that shape: a routine is a function on a \<open>world\<close> (the configuration
  object and the trace of library calls made so far) that returns the new world
  together with either the raised exception or the returned value. The world
  survives an exception, as the figure and the files of a Python process do.

  The file is Python 2 (\<^verbatim>\<open>import ConfigParser\<close>): \<^verbatim>\<open>round\<close> rounds halves away from
  zero and \<^verbatim>\<open>/\<close> on two ints is floor division. Floats are idealised as reals,
  with \<open>None\<close> standing for NaN in field data.
\<close>

subsection \<open>Exceptions\<close>

text \<open>
  An exception either comes from outside plotting.py (the configuration object, numpy,
  pandas, xarray, matplotlib, the other modules of the repository) or is raised while
  the code of plotting.py itself runs: by one of its \<^verbatim>\<open>raise ValueError(msg)\<close>
  statements, or by the interpreter for an unbound local variable or an index out of
  range.
\<close>

datatype foreign =
    NoSectionError string
  | NoOptionError string string
  | ConfigError string
  | LibraryError string

datatype error =
    ValueError string
  | UnboundLocalError string
  | IndexError
  | Foreign foreign

subsection \<open>The configuration object\<close>

text \<open>
  The routines use four accessors of the configuration object. \<^verbatim>\<open>get\<close>,
  \<^verbatim>\<open>getint\<close> and \<^verbatim>\<open>getboolean\<close> are ConfigParser's; \<^verbatim>\<open>getExpression\<close> belongs to
  the repository's own parser class and is used for the colormap indices and the
  colorbar levels, both documented as int arrays.
\<close>

record config =
  cfg_get :: "string \<Rightarrow> string \<Rightarrow> foreign + string"
  cfg_getint :: "string \<Rightarrow> string \<Rightarrow> foreign + int"
  cfg_getboolean :: "string \<Rightarrow> string \<Rightarrow> foreign + bool"
  cfg_getExpression :: "string \<Rightarrow> string \<Rightarrow> foreign + int list"

subsection \<open>Values handed to the plotting library\<close>

type_synonym float = "real option"

type_synonym figsize = "real \<times> real"

datatype fontsize = SizeInt int | SizeStr string

record font =
  font_size :: fontsize
  font_color :: string
  font_weight :: string

record array2 =
  shape0 :: nat
  shape1 :: nat
  rows :: "float list list"

type_synonym rgba = "real \<times> real \<times> real \<times> real"

record colormap =
  cm_name :: string
  cm_colors :: "rgba list"
  cm_under :: "rgba option"
  cm_over :: "rgba option"

record norm =
  boundaries :: "int list"
  ncolors :: nat

record date =
  year :: int
  month :: int

record series =
  Time :: "real list"
  data :: "float list"

subsection \<open>The trace of library calls\<close>

text \<open>
  A library call is recorded with its name and the arguments that the source passes.
  The four calls that the properties below are about have constructors of their own:
  \<^verbatim>\<open>plt.figure(figsize=, dpi=)\<close>, \<^verbatim>\<open>plt.subplot(code)\<close>,
  \<^verbatim>\<open>plt.savefig(fileout, dpi=, ...)\<close> and \<^verbatim>\<open>plt.close()\<close>. The library calls
  themselves are taken to succeed.
\<close>

datatype arg =
    AInt int | AReal real | AStr string | ABool bool | ANone
  | AReals "real list" | AFloats "float list" | AInts "int list" | AStrs "string list"
  | ABools "bool list" | AGrid "real list list" | AArray array2 | ACmap colormap
  | ANorm norm | AFont font | ASize fontsize

datatype event =
    Figure figsize int
  | Subplot nat
  | Savefig string int
  | Close
  | Call string "arg list"

definition opt_arg :: "('a \<Rightarrow> arg) \<Rightarrow> 'a option \<Rightarrow> arg" where
  "opt_arg f v = (case v of None \<Rightarrow> ANone | Some x \<Rightarrow> f x)"

record world =
  config :: config
  events :: "event list"

text \<open>What a trace has done to the file system and to the set of open figures.\<close>

fun written :: "event list \<Rightarrow> string list" where
  "written [] = []"
| "written (Savefig f d # es) = f # written es"
| "written (e # es) = written es"


subsection \<open>Sequencing, raising and catching\<close>

type_synonym 'a plt = "world \<Rightarrow> (error + 'a) \<times> world"

definition ret :: "'a \<Rightarrow> 'a plt" where
  "ret x = (\<lambda>w. (Inr x, w))"

definition raise :: "error \<Rightarrow> 'a plt" where
  "raise e = (\<lambda>w. (Inl e, w))"

definition lift :: "error + 'a \<Rightarrow> 'a plt" where
  "lift r = (\<lambda>w. (r, w))"

definition of_foreign :: "foreign + 'a \<Rightarrow> error + 'a" where
  "of_foreign r = (case r of Inl e \<Rightarrow> Inl (Foreign e) | Inr x \<Rightarrow> Inr x)"

definition outside :: "foreign + 'a \<Rightarrow> 'a plt" where
  \<comment> \<open>the result of a call that leaves plotting.py\<close>
  "outside r = lift (of_foreign r)"

definition bind :: "'a plt \<Rightarrow> ('a \<Rightarrow> 'b plt) \<Rightarrow> 'b plt" where
  "bind m f = (\<lambda>w. case m w of (Inl e, w') \<Rightarrow> (Inl e, w') | (Inr x, w') \<Rightarrow> f x w')"

definition catch :: "'a plt \<Rightarrow> (error \<Rightarrow> 'a plt) \<Rightarrow> 'a plt" where
  "catch m h = (\<lambda>w. case m w of (Inl e, w') \<Rightarrow> h e w' | (Inr x, w') \<Rightarrow> (Inr x, w'))"

definition emit :: "event \<Rightarrow> unit plt" where
  "emit ev = (\<lambda>w. (Inr (), w\<lparr>events := events w @ [ev]\<rparr>))"

definition when_some :: "'a option \<Rightarrow> ('a \<Rightarrow> unit plt) \<Rightarrow> unit plt" where
  "when_some v f = (case v of None \<Rightarrow> ret () | Some x \<Rightarrow> f x)"

fun for_each :: "'i list \<Rightarrow> ('i \<Rightarrow> 's \<Rightarrow> 's plt) \<Rightarrow> 's \<Rightarrow> 's plt" where
  "for_each [] body s = ret s"
| "for_each (i # is) body s = bind (body i s) (for_each is body)"

definition config_get :: "string \<Rightarrow> string \<Rightarrow> string plt" where
  "config_get sec opt = (\<lambda>w. (of_foreign (cfg_get (config w) sec opt), w))"

definition config_getint :: "string \<Rightarrow> string \<Rightarrow> int plt" where
  "config_getint sec opt = (\<lambda>w. (of_foreign (cfg_getint (config w) sec opt), w))"

definition config_getboolean :: "string \<Rightarrow> string \<Rightarrow> bool plt" where
  "config_getboolean sec opt = (\<lambda>w. (of_foreign (cfg_getboolean (config w) sec opt), w))"

definition config_getExpression :: "string \<Rightarrow> string \<Rightarrow> int list plt" where
  "config_getExpression sec opt = (\<lambda>w. (of_foreign (cfg_getExpression (config w) sec opt), w))"

subsection \<open>Python sequences and numbers\<close>

definition slice_bound :: "nat \<Rightarrow> int \<Rightarrow> nat" where
  "slice_bound n i = (if i < 0 then nat (max 0 (int n + i)) else min n (nat i))"

definition py_slice :: "int \<Rightarrow> int \<Rightarrow> 'a list \<Rightarrow> 'a list" where
  \<comment> \<open>\<^verbatim>\<open>xs[start:stop]\<close>: negative bounds count from the end, all bounds are clamped\<close>
  "py_slice start stop xs =
     (let a = slice_bound (length xs) start; b = slice_bound (length xs) stop
      in take (b - a) (drop a xs))"

definition py_index :: "'a list \<Rightarrow> int \<Rightarrow> error + 'a" where
  \<comment> \<open>\<^verbatim>\<open>xs[i]\<close>: a negative index counts from the end\<close>
  "py_index xs i =
     (if 0 \<le> i \<and> i < int (length xs) then Inr (xs ! nat i)
      else if i < 0 \<and> - int (length xs) \<le> i then Inr (xs ! nat (int (length xs) + i))
      else Inl IndexError)"

definition int_half :: "int \<Rightarrow> int" where
  \<comment> \<open>\<^verbatim>\<open>int(N/2.0)\<close>: the half, truncated towards zero\<close>
  "int_half N = (if 0 \<le> N then N div 2 else - ((- N) div 2))"

definition round_half :: "int \<Rightarrow> int" where
  \<comment> \<open>\<^verbatim>\<open>round(N/2.0)\<close> in Python 2: the half, ties away from zero\<close>
  "round_half N = (if 0 \<le> N then (N + 1) div 2 else - ((- N + 1) div 2))"

fun np_amin :: "real list \<Rightarrow> foreign + real" where
  "np_amin [] = Inl (LibraryError ''zero-size array to reduction operation minimum which has no identity'')"
| "np_amin (x # xs) = Inr (fold min xs x)"

fun np_amax :: "real list \<Rightarrow> foreign + real" where
  "np_amax [] = Inl (LibraryError ''zero-size array to reduction operation maximum which has no identity'')"
| "np_amax (x # xs) = Inr (fold max xs x)"

fun map_result :: "('a \<Rightarrow> 'e + 'b) \<Rightarrow> 'a list \<Rightarrow> 'e + 'b list" where
  "map_result f [] = Inr []"
| "map_result f (x # xs) =
     (case f x of Inl e \<Rightarrow> Inl e
      | Inr y \<Rightarrow> (case map_result f xs of Inl e \<Rightarrow> Inl e | Inr ys \<Rightarrow> Inr (y # ys)))"

definition truthy :: "'a list option \<Rightarrow> bool" where
  \<comment> \<open>\<^verbatim>\<open>if xLim:\<close> for \<open>None\<close> or a Python sequence\<close>
  "truthy v = (case v of None \<Rightarrow> False | Some xs \<Rightarrow> xs \<noteq> [])"

subsection \<open>What the routines take from outside plotting.py\<close>

text \<open>
  \<^verbatim>\<open>days_to_datetime\<close> and \<^verbatim>\<open>date_to_days\<close> (module \<^verbatim>\<open>timekeeping.utility\<close>) and
  the tables of module \<^verbatim>\<open>constants\<close> belong to the repository but not to this file;
  the axis limits, the colormap registry and the map projection are matplotlib's.
  All of them are parameters of the embedding.
\<close>

record env =
  days_to_datetime :: "real \<Rightarrow> string \<Rightarrow> foreign + date"
  date_to_days :: "int \<Rightarrow> int \<Rightarrow> string \<Rightarrow> foreign + real"
  daysInMonth :: "real list"
  abrevMonthNames :: "string list"
  get_xlim :: "event list \<Rightarrow> real \<times> real"
  get_ylim :: "event list \<Rightarrow> real \<times> real"
  get_cmap :: "string \<Rightarrow> foreign + colormap"
  project :: "arg list \<Rightarrow> array2 \<Rightarrow> array2 \<Rightarrow> array2 \<times> array2"

subsection \<open>The centred moving average of pandas\<close>

text \<open>
  \<^verbatim>\<open>pd.Series.rolling(s, N, center=True).mean()\<close> returns a series with the index of
  \<open>s\<close>. Entry \<open>i\<close> is the mean of the \<open>N\<close> entries that end at \<open>i + (N - 1) div 2\<close>, and
  NaN when that window leaves the series or holds a NaN. A negative window is
  refused by pandas.
\<close>

definition window_mean :: "int \<Rightarrow> float list \<Rightarrow> nat \<Rightarrow> float" where
  "window_mean N xs i =
     (let hi = int i + (N - 1) div 2; lo = hi - N + 1
      in if N \<le> 0 \<or> lo < 0 \<or> int (length xs) \<le> hi then None
         else (let ws = take (nat N) (drop (nat lo) xs)
               in if None \<in> set ws then None
                  else Some (sum_list (map the ws) / real_of_int N)))"

definition rolling_mean :: "int \<Rightarrow> float list \<Rightarrow> foreign + float list" where
  "rolling_mean N xs =
     (if N < 0 then Inl (LibraryError ''window must be non-negative'')
      else Inr (map (window_mean N xs) [0..<length xs]))"

subsection \<open>\<^verbatim>\<open>plot_xtick_format\<close>\<close>

definition plot_xtick_format ::
  "env \<Rightarrow> string \<Rightarrow> real list \<Rightarrow> real list \<Rightarrow> int \<Rightarrow> unit plt" where
  "plot_xtick_format env calendar minDays maxDays maxXTicks =
     bind (outside (np_amin minDays)) (\<lambda>lo.
     bind (outside (days_to_datetime env lo calendar)) (\<lambda>start.
     bind (outside (np_amax maxDays)) (\<lambda>hi.
     bind (outside (days_to_datetime env hi calendar)) (\<lambda>finish.
     bind (if year finish - year start > maxXTicks div 2
           then bind (outside (map_result (\<lambda>y. date_to_days env y 1 calendar)
                              [year start .. year finish]))
                  (\<lambda>major. ret (major, False))
           else bind (outside (map_result (\<lambda>(y, m). date_to_days env y m calendar)
                              (concat (map (\<lambda>y. map (\<lambda>m. (y, m)) [1 .. 12])
                                        [year start .. year finish]))))
                  (\<lambda>major. ret (major, True)))
       (\<lambda>(major, includeMonth).
     bind (emit (Call ''ax.xaxis.set_major_locator'' [AReals major, AInt maxXTicks])) (\<lambda>_.
     bind (emit (Call ''ax.xaxis.set_major_formatter'' [AStr calendar, ABool includeMonth])) (\<lambda>_.
     bind (emit (Call ''plt.setp'' [AInt 30])) (\<lambda>_.
     emit (Call ''plt.autoscale'' [ABool True, AStr ''x'', ABool True])))))))))"

subsection \<open>\<^verbatim>\<open>plot_vertical_section\<close>\<close>

text \<open>
  Lines 809 to 819, the moving average along the x dimension: every depth slice is
  smoothed and cut to \<^verbatim>\<open>[int(N/2.0):-int(round(N/2.0)-1)]\<close>, and so is \<^verbatim>\<open>xArray\<close>.
\<close>

definition trim :: "int \<Rightarrow> 'a list \<Rightarrow> 'a list" where
  "trim N xs = py_slice (int_half N) (- (round_half N - 1)) xs"

definition data_array :: "float list list \<Rightarrow> array2" where
  \<comment> \<open>\<^verbatim>\<open>xr.DataArray(slices)\<close>\<close>
  "data_array slices =
     \<lparr>shape0 = length slices,
      shape1 = (case slices of [] \<Rightarrow> 0 | s # _ \<Rightarrow> length s),
      rows = slices\<rparr>"

definition moving_average_slices ::
  "int \<Rightarrow> real list \<Rightarrow> array2 \<Rightarrow> error + float list list" where
  "moving_average_slices N depthArray fieldArray =
     map_result
       (\<lambda>nVertLevel.
          case py_index (rows fieldArray) (int nVertLevel) of
            Inl e \<Rightarrow> Inl e
          | Inr depthSlice \<Rightarrow>
              (case rolling_mean N depthSlice of
                 Inl e \<Rightarrow> Inl (Foreign e)
               | Inr mean \<Rightarrow> Inr (trim N mean)))
       [0..<length depthArray]"

definition moving_average ::
  "int \<Rightarrow> real list \<Rightarrow> real list \<Rightarrow> array2 \<Rightarrow> error + real list \<times> array2" where
  "moving_average N xArray depthArray fieldArray =
     (case moving_average_slices N depthArray fieldArray of
        Inl e \<Rightarrow> Inl e
      | Inr movingAverageDepthSlices \<Rightarrow>
          Inr (trim N xArray, data_array movingAverageDepthSlices))"

definition meshgrid :: "real list \<Rightarrow> real list \<Rightarrow> real list list \<times> real list list" where
  "meshgrid xs ys =
     (replicate (length ys) xs, map (\<lambda>y. replicate (length xs) y) ys)"

definition plot_vertical_section ::
  "env \<Rightarrow> real list \<Rightarrow> real list \<Rightarrow> array2 \<Rightarrow> colormap \<Rightarrow> int list option \<Rightarrow>
   int list option \<Rightarrow> string option \<Rightarrow> string option \<Rightarrow> string option \<Rightarrow> string option \<Rightarrow>
   string option \<Rightarrow> figsize \<Rightarrow> int option \<Rightarrow> real list option \<Rightarrow> real list option \<Rightarrow>
   real \<Rightarrow> bool \<Rightarrow> bool \<Rightarrow> int option \<Rightarrow> int \<Rightarrow> string \<Rightarrow> unit plt" where
  "plot_vertical_section env xArray depthArray fieldArray colormapName colorbarLevels
     contourLevels colorbarLabel title xlabel ylabel fileout figsize dpi xLim yLim
     linewidths invertYAxis xArrayIsTime N maxXTicks calendar =
     (if length xArray \<noteq> shape1 fieldArray
      then raise (ValueError ''size mismatch between xArray and fieldArray'')
      else if length depthArray \<noteq> shape0 fieldArray
      then raise (ValueError ''size mismatch between depthArray and fieldArray'')
      else
     bind (case dpi of None \<Rightarrow> config_getint ''plot'' ''dpi'' | Some d \<Rightarrow> ret d) (\<lambda>dpi.
     bind (emit (Figure figsize dpi)) (\<lambda>_.
     bind (case N of
             None \<Rightarrow> ret (xArray, fieldArray)
           | Some n \<Rightarrow>
               if n \<noteq> 1 then lift (moving_average n xArray depthArray fieldArray)
               else ret (xArray, fieldArray)) (\<lambda>(xArray, fieldArray).
     bind (ret (meshgrid xArray depthArray)) (\<lambda>(x, y).
     bind (ret (case colorbarLevels of
                  None \<Rightarrow> None
                | Some levels \<Rightarrow>
                    Some \<lparr>boundaries = levels, ncolors = length (cm_colors colormapName)\<rparr>))
       (\<lambda>normModelObs.
     bind (emit (Call ''plt.contourf''
                   [AGrid x, AGrid y, AArray fieldArray, ACmap colormapName,
                    opt_arg ANorm normModelObs, opt_arg AInts colorbarLevels,
                    AStr ''both''])) (\<lambda>_.
     bind (when_some contourLevels (\<lambda>contourLevels.
             emit (Call ''plt.contour''
                     [AGrid x, AGrid y, AArray fieldArray,
                      (if length contourLevels = 0 then ANone else AInts contourLevels),
                      AStr ''k'', AReal linewidths]))) (\<lambda>_.
     bind (emit (Call ''plt.colorbar''
                   [AStr ''vertical'', AStr ''uniform'', opt_arg AInts colorbarLevels,
                    opt_arg AInts colorbarLevels])) (\<lambda>_.
     bind (when_some colorbarLabel (\<lambda>l. emit (Call ''cbar.set_label'' [AStr l]))) (\<lambda>_.
     bind (config_get ''plot'' ''axisFontSize'') (\<lambda>axis_size.
     bind (config_get ''plot'' ''titleFontSize'') (\<lambda>title_size.
     bind (config_get ''plot'' ''titleFontColor'') (\<lambda>title_color.
     bind (config_get ''plot'' ''titleFontWeight'') (\<lambda>title_weight.
     bind (ret \<lparr>font_size = SizeStr title_size, font_color = title_color,
                font_weight = title_weight\<rparr>) (\<lambda>title_font.
     bind (when_some title (\<lambda>t. emit (Call ''plt.title'' [AStr t, AFont title_font]))) (\<lambda>_.
     bind (when_some xlabel (\<lambda>l.
             emit (Call ''plt.xlabel'' [AStr l, ASize (SizeStr axis_size)]))) (\<lambda>_.
     bind (when_some ylabel (\<lambda>l.
             emit (Call ''plt.ylabel'' [AStr l, ASize (SizeStr axis_size)]))) (\<lambda>_.
     bind (if invertYAxis then emit (Call ''invert_yaxis'' []) else ret ()) (\<lambda>_.
     bind (if truthy xLim then emit (Call ''plt.xlim'' [AReals (the xLim)]) else ret ()) (\<lambda>_.
     bind (if truthy yLim then emit (Call ''plt.ylim'' [AReals (the yLim)]) else ret ()) (\<lambda>_.
     bind (if xArrayIsTime
           then bind (lift (py_index xArray 0)) (\<lambda>first.
                bind (lift (py_index xArray (- 1))) (\<lambda>last.
                plot_xtick_format env calendar [first] [last] maxXTicks))
           else ret ()) (\<lambda>_.
     bind (when_some fileout (\<lambda>f. emit (Savefig f dpi))) (\<lambda>_.
     bind (config_getboolean ''plot'' ''displayToScreen'') (\<lambda>displayToScreen.
     if \<not> displayToScreen then emit Close else ret ()))))))))))))))))))))))))"

subsection \<open>\<^verbatim>\<open>timeseries_analysis_plot\<close>\<close>

text \<open>
  The loop variables that outlive the loop are \<^verbatim>\<open>minDays\<close>, \<^verbatim>\<open>maxDays\<close> and
  \<^verbatim>\<open>mean\<close>; \<^verbatim>\<open>mean\<close> is unbound until the first data set that is not \<open>None\<close>.
\<close>

definition timeseries_body ::
  "series option list \<Rightarrow> int \<Rightarrow> string list \<Rightarrow> real list \<Rightarrow> string list \<Rightarrow> nat \<Rightarrow>
   real list \<times> real list \<times> series option \<Rightarrow> (real list \<times> real list \<times> series option) plt" where
  "timeseries_body dsvalues N lineStyles lineWidths legendText dsIndex st =
     (case st of (minDays, maxDays, mean) \<Rightarrow>
      (case dsvalues ! dsIndex of
         None \<Rightarrow> ret (minDays, maxDays, mean)
       | Some dsvalue \<Rightarrow>
           bind (outside (rolling_mean N (data dsvalue))) (\<lambda>m.
           bind (ret \<lparr>Time = Time dsvalue, data = m\<rparr>) (\<lambda>mean.
           bind (outside (np_amin (Time mean))) (\<lambda>tmin.
           bind (outside (np_amax (Time mean))) (\<lambda>tmax.
           bind (lift (py_index lineStyles (int dsIndex))) (\<lambda>style.
           bind (lift (py_index lineWidths (int dsIndex))) (\<lambda>width.
           bind (lift (py_index legendText (int dsIndex))) (\<lambda>label.
           bind (emit (Call ''plt.plot''
                         [AReals (Time mean), AFloats (data mean), AStr style, AReal width,
                          AStr label])) (\<lambda>_.
           ret (minDays @ [tmin], maxDays @ [tmax], Some mean)))))))))))"

definition ax_get_ylim :: "env \<Rightarrow> (real \<times> real) plt" where
  "ax_get_ylim env = (\<lambda>w. (Inr (get_ylim env (events w)), w))"

definition ax_get_xlim :: "env \<Rightarrow> (real \<times> real) plt" where
  "ax_get_xlim env = (\<lambda>w. (Inr (get_xlim env (events w)), w))"

definition timeseries_analysis_plot ::
  "env \<Rightarrow> series option list \<Rightarrow> int \<Rightarrow> string option \<Rightarrow> string option \<Rightarrow> string option \<Rightarrow>
   string option \<Rightarrow> string list \<Rightarrow> real list \<Rightarrow> string list \<Rightarrow> string \<Rightarrow> fontsize option \<Rightarrow>
   figsize \<Rightarrow> int option \<Rightarrow> int \<Rightarrow> unit plt" where
  "timeseries_analysis_plot env dsvalues N title xlabel ylabel fileout lineStyles lineWidths
     legendText calendar titleFontSize figsize dpi maxXTicks =
     bind (case dpi of None \<Rightarrow> config_getint ''plot'' ''dpi'' | Some d \<Rightarrow> ret d) (\<lambda>dpi.
     bind (emit (Figure figsize dpi)) (\<lambda>_.
     bind (for_each [0..<length dsvalues]
             (timeseries_body dsvalues N lineStyles lineWidths legendText) ([], [], None))
       (\<lambda>(minDays, maxDays, mean).
     bind (emit (Call ''plt.legend'' [AStr ''lower left''])) (\<lambda>_.
     bind (case titleFontSize of
             None \<Rightarrow> bind (config_get ''plot'' ''titleFontSize'') (\<lambda>s. ret (SizeStr s))
           | Some v \<Rightarrow> ret v) (\<lambda>titleFontSize.
     bind (config_get ''plot'' ''axisFontSize'') (\<lambda>axis_size.
     bind (config_get ''plot'' ''titleFontColor'') (\<lambda>title_color.
     bind (config_get ''plot'' ''titleFontWeight'') (\<lambda>title_weight.
     bind (ret \<lparr>font_size = titleFontSize, font_color = title_color,
                font_weight = title_weight\<rparr>) (\<lambda>title_font.
     bind (ax_get_ylim env) (\<lambda>yaxLimits.
     bind (if fst yaxLimits * snd yaxLimits < 0
           then (case mean of
                   None \<Rightarrow> raise (UnboundLocalError ''mean'')
                 | Some mean \<Rightarrow>
                     bind (ret (map fst (filter (\<lambda>(t, v). v \<noteq> None)
                                           (zip (Time mean) (data mean))))) (\<lambda>x.
                     emit (Call ''plt.plot''
                             [AReals x, AFloats (replicate (length x) (Some 0)),
                              AStr ''k-'', AReal 1.2])))
           else ret ()) (\<lambda>_.
     bind (plot_xtick_format env calendar minDays maxDays maxXTicks) (\<lambda>_.
     bind (when_some title (\<lambda>t. emit (Call ''plt.title'' [AStr t, AFont title_font]))) (\<lambda>_.
     bind (when_some xlabel (\<lambda>l.
             emit (Call ''plt.xlabel'' [AStr l, ASize (SizeStr axis_size)]))) (\<lambda>_.
     bind (when_some ylabel (\<lambda>l.
             emit (Call ''plt.ylabel'' [AStr l, ASize (SizeStr axis_size)]))) (\<lambda>_.
     bind (when_some fileout (\<lambda>f. emit (Savefig f dpi))) (\<lambda>_.
     bind (config_getboolean ''plot'' ''displayToScreen'') (\<lambda>displayToScreen.
     if \<not> displayToScreen then emit Close else ret ())))))))))))))))))"

subsection \<open>\<^verbatim>\<open>timeseries_analysis_plot_polar\<close>\<close>

definition timeseries_polar_body ::
  "series option list \<Rightarrow> int \<Rightarrow> string list \<Rightarrow> real list \<Rightarrow> string list \<Rightarrow> nat \<Rightarrow>
   real list \<times> real list \<times> series option \<Rightarrow> (real list \<times> real list \<times> series option) plt" where
  "timeseries_polar_body dsvalues N lineStyles lineWidths legendText dsIndex st =
     (case st of (minDays, maxDays, mean) \<Rightarrow>
      (case dsvalues ! dsIndex of
         None \<Rightarrow> ret (minDays, maxDays, mean)
       | Some dsvalue \<Rightarrow>
           bind (outside (rolling_mean N (data dsvalue))) (\<lambda>m.
           bind (ret \<lparr>Time = Time dsvalue, data = m\<rparr>) (\<lambda>mean.
           bind (outside (np_amin (Time mean))) (\<lambda>tmin.
           bind (outside (np_amax (Time mean))) (\<lambda>tmax.
           bind (lift (py_index lineStyles (int dsIndex))) (\<lambda>style.
           bind (lift (py_index lineWidths (int dsIndex))) (\<lambda>width.
           bind (lift (py_index legendText (int dsIndex))) (\<lambda>label.
           bind (emit (Call ''plt.polar''
                         [AReals (map (\<lambda>t. t / 365 * pi * 2) (Time mean)),
                          AFloats (data mean), AStr style, AReal width, AStr label])) (\<lambda>_.
           ret (minDays @ [tmin], maxDays @ [tmax], Some mean)))))))))))"

fun tick_locs ::
  "real list \<Rightarrow> nat list \<Rightarrow> real list \<times> real list \<Rightarrow> error + real list \<times> real list" where
  "tick_locs table [] locs = Inr locs"
| "tick_locs table (mth # rest) (majorTickLocs, minorTickLocs) =
     (case py_index table (int mth - 1) of
        Inl e \<Rightarrow> Inl e
      | Inr before \<Rightarrow>
          (case py_index table (int mth) of
             Inl e \<Rightarrow> Inl e
           | Inr this \<Rightarrow>
               tick_locs table rest
                 (majorTickLocs[mth := majorTickLocs ! (mth - 1) + before * pi * 2 / 365],
                  minorTickLocs[mth := minorTickLocs ! (mth - 1)
                                           + (before + this) * pi / 365])))"

definition timeseries_analysis_plot_polar ::
  "env \<Rightarrow> series option list \<Rightarrow> int \<Rightarrow> string option \<Rightarrow> string option \<Rightarrow> string list \<Rightarrow>
   real list \<Rightarrow> string list \<Rightarrow> fontsize option \<Rightarrow> figsize \<Rightarrow> int option \<Rightarrow> unit plt" where
  "timeseries_analysis_plot_polar env dsvalues N title fileout lineStyles lineWidths
     legendText titleFontSize figsize dpi =
     bind (case dpi of None \<Rightarrow> config_getint ''plot'' ''dpi'' | Some d \<Rightarrow> ret d) (\<lambda>dpi.
     bind (emit (Figure figsize dpi)) (\<lambda>_.
     bind (for_each [0..<length dsvalues]
             (timeseries_polar_body dsvalues N lineStyles lineWidths legendText)
             ([], [], None)) (\<lambda>(minDays, maxDays, mean).
     bind (emit (Call ''plt.legend'' [AStr ''lower left''])) (\<lambda>_.
     bind (lift (py_index (daysInMonth env) 0)) (\<lambda>january.
     bind (lift (tick_locs (daysInMonth env) [1..<12]
                   ((replicate 12 0)[0 := 0], (replicate 12 0)[0 := january * pi / 365])))
       (\<lambda>(majorTickLocs, minorTickLocs).
     bind (emit (Call ''ax.set_xticks'' [AReals majorTickLocs])) (\<lambda>_.
     bind (emit (Call ''ax.set_xticklabels'' [AStrs []])) (\<lambda>_.
     bind (emit (Call ''ax.set_xticks'' [AReals minorTickLocs, ABool True])) (\<lambda>_.
     bind (emit (Call ''ax.set_xticklabels'' [AStrs (abrevMonthNames env), ABool True])) (\<lambda>_.
     bind (case titleFontSize of
             None \<Rightarrow> bind (config_get ''plot'' ''titleFontSize'') (\<lambda>s. ret (SizeStr s))
           | Some v \<Rightarrow> ret v) (\<lambda>titleFontSize.
     bind (config_get ''plot'' ''axisFontSize'') (\<lambda>axis_size.
     bind (config_get ''plot'' ''titleFontColor'') (\<lambda>title_color.
     bind (config_get ''plot'' ''titleFontWeight'') (\<lambda>title_weight.
     bind (ret \<lparr>font_size = titleFontSize, font_color = title_color,
                font_weight = title_weight\<rparr>) (\<lambda>title_font.
     bind (when_some title (\<lambda>t. emit (Call ''plt.title'' [AStr t, AFont title_font]))) (\<lambda>_.
     bind (when_some fileout (\<lambda>f. emit (Savefig f dpi))) (\<lambda>_.
     bind (config_getboolean ''plot'' ''displayToScreen'') (\<lambda>displayToScreen.
     if \<not> displayToScreen then emit Close else ret ()))))))))))))))))))"

subsection \<open>\<^verbatim>\<open>plot_polar_comparison\<close>\<close>

definition arange :: "real \<Rightarrow> real \<Rightarrow> real \<Rightarrow> real list" where
  \<comment> \<open>\<^verbatim>\<open>np.arange(start, stop, step)\<close>\<close>
  "arange start stop step =
     map (\<lambda>i. start + real i * step) [0..<nat \<lceil>(stop - start) / step\<rceil>]"

definition boundary_norm :: "int list \<Rightarrow> colormap \<Rightarrow> norm" where
  \<comment> \<open>\<^verbatim>\<open>cols.BoundaryNorm(clevs, cmap.N)\<close>\<close>
  "boundary_norm clevs cmap = \<lparr>boundaries = clevs, ncolors = length (cm_colors cmap)\<rparr>"

text \<open>
  The nested \<^verbatim>\<open>do_subplot\<close> reads \<^verbatim>\<open>plotProjection\<close>, \<^verbatim>\<open>latmin\<close>, \<^verbatim>\<open>lon0\<close>,
  \<^verbatim>\<open>Lons\<close>, \<^verbatim>\<open>Lats\<close>, \<^verbatim>\<open>axis_font\<close> and \<^verbatim>\<open>cbarlabel\<close> from the enclosing call.
\<close>

definition do_subplot ::
  "env \<Rightarrow> string \<Rightarrow> real \<Rightarrow> real \<Rightarrow> array2 \<Rightarrow> array2 \<Rightarrow> string \<Rightarrow> string \<Rightarrow>
   array2 \<Rightarrow> string \<Rightarrow> colormap \<Rightarrow> norm \<Rightarrow> int list \<Rightarrow> unit plt" where
  "do_subplot env plotProjection latmin lon0 Lons Lats axis_size cbarlabel
     field title cmap nrm levels =
     bind (ret [AStr plotProjection, AReal latmin, AReal lon0, AStr ''l'']) (\<lambda>m.
     bind (emit (Call ''Basemap'' m)) (\<lambda>_.
     bind (ret (project env m Lons Lats)) (\<lambda>(x, y).
     bind (emit (Call ''ax.set_title'' [AStr title, ASize (SizeStr axis_size)])) (\<lambda>_.
     bind (emit (Call ''m.drawcoastlines'' [])) (\<lambda>_.
     bind (emit (Call ''m.fillcontinents'' [AStr ''grey'', AStr ''white''])) (\<lambda>_.
     bind (emit (Call ''m.drawparallels'' [AReals (arange (- 80) 81 10)])) (\<lambda>_.
     bind (emit (Call ''m.drawmeridians''
                   [AReals (arange (- 180) 181 20), ABools [True, False, True, True]])) (\<lambda>_.
     bind (emit (Call ''m.contourf''
                   [AArray x, AArray y, AArray field, ACmap cmap, ANorm nrm,
                    AInts levels])) (\<lambda>_.
     bind (emit (Call ''m.colorbar''
                   [AStr ''right'', AStr ''3%'', AStr ''uniform'', AInts levels,
                    AInts levels])) (\<lambda>_.
     emit (Call ''cbar.set_label'' [AStr cbarlabel])))))))))))"

definition plot_polar_comparison ::
  "env \<Rightarrow> array2 \<Rightarrow> array2 \<Rightarrow> array2 \<Rightarrow> array2 \<Rightarrow> array2 \<Rightarrow> colormap \<Rightarrow> int list \<Rightarrow>
   colormap \<Rightarrow> int list \<Rightarrow> string option \<Rightarrow> string option \<Rightarrow> string \<Rightarrow> real \<Rightarrow> real \<Rightarrow>
   string \<Rightarrow> string \<Rightarrow> string \<Rightarrow> string \<Rightarrow> fontsize option \<Rightarrow> figsize option \<Rightarrow>
   int option \<Rightarrow> bool \<Rightarrow> unit plt" where
  "plot_polar_comparison env Lons Lats modelArray obsArray diffArray cmapModelObs
     clevsModelObs cmapDiff clevsDiff fileout title plotProjection latmin lon0 modelTitle
     obsTitle diffTitle cbarlabel titleFontSize figsize dpi vertical =
     bind (case dpi of None \<Rightarrow> config_getint ''plot'' ''dpi'' | Some d \<Rightarrow> ret d) (\<lambda>dpi.
     bind (ret (if vertical
                then (case figsize of None \<Rightarrow> (8, 22) | Some s \<Rightarrow> s, [311, 312, 313])
                else (case figsize of None \<Rightarrow> (22, 8.5) | Some s \<Rightarrow> s, [131, 132, 133])))
       (\<lambda>(figsize, subplots).
     bind (emit (Figure figsize dpi)) (\<lambda>_.
     bind (when_some title (\<lambda>t.
             bind (case titleFontSize of
                     None \<Rightarrow> bind (config_get ''plot'' ''titleFontSize'') (\<lambda>s. ret (SizeStr s))
                   | Some v \<Rightarrow> ret v) (\<lambda>titleFontSize.
             bind (config_get ''plot'' ''titleFontColor'') (\<lambda>title_color.
             bind (config_get ''plot'' ''titleFontWeight'') (\<lambda>title_weight.
             emit (Call ''fig.suptitle''
                     [AStr t, AFont \<lparr>font_size = titleFontSize, font_color = title_color,
                                     font_weight = title_weight\<rparr>])))))) (\<lambda>_.
     bind (config_get ''plot'' ''axisFontSize'') (\<lambda>axis_size.
     bind (ret (boundary_norm clevsModelObs cmapModelObs)) (\<lambda>normModelObs.
     bind (ret (boundary_norm clevsDiff cmapDiff)) (\<lambda>normDiff.
     bind (lift (py_index subplots 0)) (\<lambda>code.
     bind (emit (Subplot code)) (\<lambda>_.
     bind (do_subplot env plotProjection latmin lon0 Lons Lats axis_size cbarlabel
             modelArray modelTitle cmapModelObs normModelObs clevsModelObs) (\<lambda>_.
     bind (lift (py_index subplots 1)) (\<lambda>code.
     bind (emit (Subplot code)) (\<lambda>_.
     bind (do_subplot env plotProjection latmin lon0 Lons Lats axis_size cbarlabel
             obsArray obsTitle cmapModelObs normModelObs clevsModelObs) (\<lambda>_.
     bind (lift (py_index subplots 2)) (\<lambda>code.
     bind (emit (Subplot code)) (\<lambda>_.
     bind (do_subplot env plotProjection latmin lon0 Lons Lats axis_size cbarlabel
             diffArray diffTitle cmapDiff normDiff clevsDiff) (\<lambda>_.
     bind (emit (Call ''plt.tight_layout'' [AReal 4])) (\<lambda>_.
     bind (if vertical then emit (Call ''plt.subplots_adjust'' [AReal 0.9]) else ret ()) (\<lambda>_.
     bind (when_some fileout (\<lambda>f. emit (Savefig f dpi))) (\<lambda>_.
     bind (config_getboolean ''plot'' ''displayToScreen'') (\<lambda>displayToScreen.
     if \<not> displayToScreen then emit Close else ret ()))))))))))))))))))))"

subsection \<open>\<^verbatim>\<open>plot_global_comparison\<close>\<close>

definition global_panel ::
  "arg list \<Rightarrow> array2 \<times> array2 \<Rightarrow> nat \<Rightarrow> string \<Rightarrow> string \<Rightarrow> real \<Rightarrow> array2 \<Rightarrow>
   colormap \<Rightarrow> norm \<Rightarrow> int list \<Rightarrow> int list \<Rightarrow> string \<Rightarrow> unit plt" where
  \<comment> \<open>one of the three panels, which the source writes out one after the other\<close>
  "global_panel m xy index panelTitle axis_size meridianStep field cmap nrm levels
     bounds cbarlabel =
     bind (emit (Call ''plt.subplot'' [AInt 3, AInt 1, AInt (int index)])) (\<lambda>_.
     bind (emit (Call ''plt.title'' [AStr panelTitle, ASize (SizeStr axis_size)])) (\<lambda>_.
     bind (emit (Call ''m.drawcoastlines'' [])) (\<lambda>_.
     bind (emit (Call ''m.fillcontinents'' [AStr ''grey'', AStr ''white''])) (\<lambda>_.
     bind (emit (Call ''m.drawparallels''
                   [AReals (arange (- 80) 80 20), ABools [True, False, False, False]])) (\<lambda>_.
     bind (emit (Call ''m.drawmeridians''
                   [AReals (arange (- 180) 180 meridianStep),
                    ABools [False, False, False, True]])) (\<lambda>_.
     bind (emit (Call ''m.contourf''
                   [AArray (fst xy), AArray (snd xy), AArray field, ACmap cmap, ANorm nrm,
                    AInts levels, AStr ''both''])) (\<lambda>_.
     bind (emit (Call ''m.colorbar''
                   [AStr ''right'', AStr ''5%'', AStr ''uniform'', AInts levels,
                    AInts bounds])) (\<lambda>_.
     emit (Call ''cbar.set_label'' [AStr cbarlabel])))))))))"

definition plot_global_comparison ::
  "env \<Rightarrow> array2 \<Rightarrow> array2 \<Rightarrow> array2 \<Rightarrow> array2 \<Rightarrow> array2 \<Rightarrow> colormap \<Rightarrow> int list \<Rightarrow>
   colormap \<Rightarrow> int list \<Rightarrow> string option \<Rightarrow> string option \<Rightarrow> string \<Rightarrow> string \<Rightarrow> string \<Rightarrow>
   string \<Rightarrow> fontsize option \<Rightarrow> figsize \<Rightarrow> int option \<Rightarrow> unit plt" where
  "plot_global_comparison env Lons Lats modelArray obsArray diffArray cmapModelObs
     clevsModelObs cmapDiff clevsDiff fileout title modelTitle obsTitle diffTitle cbarlabel
     titleFontSize figsize dpi =
     bind (case dpi of None \<Rightarrow> config_getint ''plot'' ''dpi'' | Some d \<Rightarrow> ret d) (\<lambda>dpi.
     bind (emit (Figure figsize dpi)) (\<lambda>_.
     bind (when_some title (\<lambda>t.
             bind (case titleFontSize of
                     None \<Rightarrow> bind (config_get ''plot'' ''titleFontSize'') (\<lambda>s. ret (SizeStr s))
                   | Some v \<Rightarrow> ret v) (\<lambda>titleFontSize.
             bind (config_get ''plot'' ''titleFontColor'') (\<lambda>title_color.
             bind (config_get ''plot'' ''titleFontWeight'') (\<lambda>title_weight.
             emit (Call ''fig.suptitle''
                     [AStr t, AFont \<lparr>font_size = titleFontSize, font_color = title_color,
                                     font_weight = title_weight\<rparr>])))))) (\<lambda>_.
     bind (config_get ''plot'' ''axisFontSize'') (\<lambda>axis_size.
     bind (ret [AStr ''cyl'', AReal (- 85), AReal 86, AReal (- 180), AReal 181, AStr ''l''])
       (\<lambda>m.
     bind (emit (Call ''Basemap'' m)) (\<lambda>_.
     bind (ret (project env m Lons Lats)) (\<lambda>xy.
     bind (ret (boundary_norm clevsModelObs cmapModelObs)) (\<lambda>normModelObs.
     bind (ret (boundary_norm clevsDiff cmapDiff)) (\<lambda>normDiff.
     bind (global_panel m xy 1 modelTitle axis_size 60 modelArray cmapModelObs normModelObs
             clevsModelObs clevsModelObs cbarlabel) (\<lambda>_.
     bind (global_panel m xy 2 obsTitle axis_size 40 obsArray cmapModelObs normModelObs
             clevsModelObs clevsModelObs cbarlabel) (\<lambda>_.
     bind (global_panel m xy 3 diffTitle axis_size 40 diffArray cmapDiff normDiff
             clevsDiff clevsModelObs cbarlabel) (\<lambda>_.
     bind (when_some fileout (\<lambda>f. emit (Savefig f dpi))) (\<lambda>_.
     bind (config_getboolean ''plot'' ''displayToScreen'') (\<lambda>displayToScreen.
     if \<not> displayToScreen then emit Close else ret ()))))))))))))))"

subsection \<open>\<^verbatim>\<open>plot_1D\<close>\<close>

definition np_binop ::
  "(real \<Rightarrow> real \<Rightarrow> real) \<Rightarrow> float list \<Rightarrow> float list \<Rightarrow> foreign + float list" where
  \<comment> \<open>elementwise, a single element is broadcast, any other length mismatch is refused\<close>
  "np_binop g xs ys =
     (let f = (\<lambda>a b. case (a, b) of (Some u, Some v) \<Rightarrow> Some (g u v) | _ \<Rightarrow> None)
      in if length xs = length ys then Inr (map2 f xs ys)
         else if length ys = 1 then Inr (map (\<lambda>a. f a (hd ys)) xs)
         else if length xs = 1 then Inr (map (\<lambda>b. f (hd xs) b) ys)
         else Inl (LibraryError ''operands could not be broadcast together''))"

definition plot_1D_body ::
  "real list option list \<Rightarrow> float list list \<Rightarrow> float list option list \<Rightarrow> string list \<Rightarrow>
   real list \<Rightarrow> string list \<Rightarrow> nat \<Rightarrow> nat option \<Rightarrow> nat option plt" where
  \<comment> \<open>the loop state is the value that \<^verbatim>\<open>dsIndex\<close> holds after the iteration\<close>
  "plot_1D_body xArrays fieldArrays errArrays lineColors lineWidths legendText dsIndex previous =
     bind (ret (xArrays ! dsIndex)) (\<lambda>xArray.
     bind (lift (py_index fieldArrays (int dsIndex))) (\<lambda>fieldArray.
     bind (lift (py_index errArrays (int dsIndex))) (\<lambda>errArray.
     (case xArray of
        None \<Rightarrow> ret (Some dsIndex)
      | Some xArray \<Rightarrow>
     (case errArray of
        None \<Rightarrow>
          bind (lift (py_index lineColors (int dsIndex))) (\<lambda>color.
          bind (lift (py_index lineWidths (int dsIndex))) (\<lambda>width.
          bind (lift (py_index legendText (int dsIndex))) (\<lambda>label.
          bind (emit (Call ''plt.plot''
                        [AReals xArray, AFloats fieldArray, AStr color, AReal width,
                         AStr label])) (\<lambda>_.
          ret (Some dsIndex)))))
      | Some errArray \<Rightarrow>
          bind (lift (py_index lineColors (int dsIndex))) (\<lambda>color.
          bind (lift (py_index lineWidths (int dsIndex))) (\<lambda>width.
          bind (lift (py_index legendText (int dsIndex))) (\<lambda>label.
          bind (emit (Call ''plt.plot''
                        [AReals xArray, AFloats fieldArray, AStr color, AReal width,
                         AStr label])) (\<lambda>_.
          bind (outside (np_binop (+) fieldArray errArray)) (\<lambda>upper.
          bind (lift (py_index lineColors (int dsIndex))) (\<lambda>facecolor.
          bind (emit (Call ''plt.fill_between''
                        [AReals xArray, AFloats fieldArray, AFloats upper, AStr facecolor,
                         AReal 0.2])) (\<lambda>_.
          bind (outside (np_binop (-) fieldArray errArray)) (\<lambda>lower.
          bind (lift (py_index lineColors (int dsIndex))) (\<lambda>facecolor.
          bind (emit (Call ''plt.fill_between''
                        [AReals xArray, AFloats fieldArray, AFloats lower, AStr facecolor,
                         AReal 0.2])) (\<lambda>_.
          ret (Some dsIndex))))))))))))))))"

definition plot_1D ::
  "real list option list \<Rightarrow> float list list \<Rightarrow> float list option list \<Rightarrow> string list \<Rightarrow>
   real list \<Rightarrow> string list \<Rightarrow> string option \<Rightarrow> string option \<Rightarrow> string option \<Rightarrow>
   string option \<Rightarrow> figsize \<Rightarrow> int option \<Rightarrow> real list option \<Rightarrow> real list option \<Rightarrow>
   bool \<Rightarrow> unit plt" where
  "plot_1D xArrays fieldArrays errArrays lineColors lineWidths legendText title xlabel
     ylabel fileout figsize dpi xLim yLim invertYAxis =
     bind (case dpi of None \<Rightarrow> config_getint ''plot'' ''dpi'' | Some d \<Rightarrow> ret d) (\<lambda>dpi.
     bind (emit (Figure figsize dpi)) (\<lambda>_.
     bind (for_each [0..<length xArrays]
             (plot_1D_body xArrays fieldArrays errArrays lineColors lineWidths legendText)
             None) (\<lambda>dsIndex.
     bind (emit (Call ''plt.grid'' [])) (\<lambda>_.
     bind (emit (Call ''plt.axhline'' [AReal 0, AStr ''-'', AStr ''k''])) (\<lambda>_.
     bind (case dsIndex of
             None \<Rightarrow> raise (UnboundLocalError ''dsIndex'')
           | Some dsIndex \<Rightarrow>
               if dsIndex > 0 then emit (Call ''plt.legend'' []) else ret ()) (\<lambda>_.
     bind (config_get ''plot'' ''axisFontSize'') (\<lambda>axis_size.
     bind (config_get ''plot'' ''titleFontSize'') (\<lambda>title_size.
     bind (config_get ''plot'' ''titleFontColor'') (\<lambda>title_color.
     bind (config_get ''plot'' ''titleFontWeight'') (\<lambda>title_weight.
     bind (ret \<lparr>font_size = SizeStr title_size, font_color = title_color,
                font_weight = title_weight\<rparr>) (\<lambda>title_font.
     bind (when_some title (\<lambda>t. emit (Call ''plt.title'' [AStr t, AFont title_font]))) (\<lambda>_.
     bind (when_some xlabel (\<lambda>l.
             emit (Call ''plt.xlabel'' [AStr l, ASize (SizeStr axis_size)]))) (\<lambda>_.
     bind (when_some ylabel (\<lambda>l.
             emit (Call ''plt.ylabel'' [AStr l, ASize (SizeStr axis_size)]))) (\<lambda>_.
     bind (if invertYAxis then emit (Call ''invert_yaxis'' []) else ret ()) (\<lambda>_.
     bind (if truthy xLim then emit (Call ''plt.xlim'' [AReals (the xLim)]) else ret ()) (\<lambda>_.
     bind (if truthy yLim then emit (Call ''plt.ylim'' [AReals (the yLim)]) else ret ()) (\<lambda>_.
     bind (when_some fileout (\<lambda>f. emit (Savefig f dpi))) (\<lambda>_.
     bind (config_getboolean ''plot'' ''displayToScreen'') (\<lambda>displayToScreen.
     if \<not> displayToScreen then emit Close else ret ())))))))))))))))))))"

subsection \<open>\<^verbatim>\<open>setup_colormap\<close>\<close>

definition cm_call :: "colormap \<Rightarrow> int \<Rightarrow> rgba" where
  \<comment> \<open>\<^verbatim>\<open>colormap(i)\<close> for an integer: the listed colour, or the under or over colour\<close>
  "cm_call cm i =
     (let cs = cm_colors cm; blank = (0, 0, 0, 0)
      in if i < 0 then (case cm_under cm of Some c \<Rightarrow> c
                        | None \<Rightarrow> (case cs of [] \<Rightarrow> blank | c # _ \<Rightarrow> c))
         else if int (length cs) \<le> i
         then (case cm_over cm of Some c \<Rightarrow> c
               | None \<Rightarrow> (if cs = [] then blank else last cs))
         else cs ! nat i)"

definition setup_colormap ::
  "env \<Rightarrow> string \<Rightarrow> string \<Rightarrow> (colormap \<times> int list option) plt" where
  "setup_colormap env configSectionName suffix =
     bind (config_get configSectionName (''colormapName'' @ suffix)) (\<lambda>name.
     bind (outside (get_cmap env name)) (\<lambda>colormap.
     bind (config_getExpression configSectionName (''colormapIndices'' @ suffix)) (\<lambda>indices.
     bind (catch
             (bind (config_getExpression configSectionName (''colorbarLevels'' @ suffix))
                (\<lambda>levels. ret (Some levels)))
             (\<lambda>e. case e of Foreign (NoOptionError sec opt) \<Rightarrow> ret None | _ \<Rightarrow> raise e))
       (\<lambda>colorbarLevels.
     (case colorbarLevels of
        None \<Rightarrow> ret (colormap, None)
      | Some levels \<Rightarrow>
     bind (lift (py_index indices 0)) (\<lambda>first.
     bind (ret (cm_call colormap first)) (\<lambda>underColor.
     bind (lift (py_index indices (- 1))) (\<lambda>final.
     bind (ret (cm_call colormap final)) (\<lambda>overColor.
     bind (if int (length levels) + 1 = int (length indices)
           then ret (py_slice 1 (- 1) indices)
           else if int (length levels) - 1 \<noteq> int (length indices)
           then raise (ValueError ''length mismatch between indices and colorbarLevels'')
           else ret indices) (\<lambda>indices.
     ret (\<lparr>cm_name = ''colormapName'' @ suffix,
           cm_colors = map (cm_call colormap) indices,
           cm_under = Some underColor,
           cm_over = Some overColor\<rparr>, colorbarLevels)))))))))))"

subsection \<open>\<^verbatim>\<open>_date_tick\<close> and \<^verbatim>\<open>plot_size_y_axis\<close>\<close>

fun digits :: "nat \<Rightarrow> string" where
  "digits n =
     (if n < 10 then [''0123456789'' ! n]
      else digits (n div 10) @ [''0123456789'' ! (n mod 10)])"

definition format_d :: "nat \<Rightarrow> int \<Rightarrow> string" where
  \<comment> \<open>\<^verbatim>\<open>'{:0Wd}'.format(n)\<close>: zero padding after the sign, to width W\<close>
  "format_d W n =
     (let ds = digits (nat \<bar>n\<bar>); sign = (if n < 0 then [CHR ''-''] else [])
      in sign @ replicate (W - length sign - length ds) (CHR ''0'') @ ds)"

definition date_tick :: "env \<Rightarrow> real \<Rightarrow> string \<Rightarrow> bool \<Rightarrow> foreign + string" where
  "date_tick env days calendar includeMonth =
     (case days_to_datetime env (max days 0) calendar of
        Inl e \<Rightarrow> Inl e
      | Inr d \<Rightarrow>
          Inr (if includeMonth then format_d 4 (year d) @ ''-'' @ format_d 2 (month d)
               else format_d 4 (year d)))"

fun argmin_from :: "nat \<Rightarrow> nat \<times> real \<Rightarrow> real list \<Rightarrow> nat" where
  "argmin_from i (best, least) [] = best"
| "argmin_from i (best, least) (x # xs) =
     argmin_from (Suc i) (if x < least then (i, x) else (best, least)) xs"

definition argmin :: "real list \<Rightarrow> foreign + nat" where
  "argmin xs =
     (case xs of
        [] \<Rightarrow> Inl (LibraryError ''attempt to get argmin of an empty sequence'')
      | x # rest \<Rightarrow> Inr (argmin_from 1 (0, x) rest))"

definition plot_size_y_axis ::
  "env \<Rightarrow> real list \<Rightarrow> (string \<times> real list) list \<Rightarrow> real plt" where
  "plot_size_y_axis env xaxisValues curves =
     bind (ax_get_xlim env) (\<lambda>lim1.
     bind (ret (fst lim1)) (\<lambda>xmin.
     bind (ax_get_xlim env) (\<lambda>lim2.
     bind (ret (snd lim2)) (\<lambda>xmax.
     bind (outside (argmin (map (\<lambda>x. \<bar>x - xmin\<bar>) xaxisValues))) (\<lambda>minIndex.
     bind (outside (argmin (map (\<lambda>x. \<bar>x - xmax\<bar>) xaxisValues))) (\<lambda>maxIndex.
     for_each curves
       (\<lambda>(key, curve) maxCurveVal.
          bind (outside (np_amax (py_slice (int minIndex) (int maxIndex) curve))) (\<lambda>maxTemp.
          ret (max maxTemp maxCurveVal)))
       (- (10 ^ 20))))))))"

subsection \<open>A call of one of the six plotting routines\<close>

datatype call =
    TimeseriesAnalysisPlot
      "series option list" int "string option" "string option" "string option" "string option"
      "string list" "real list" "string list" string "fontsize option" figsize "int option" int
  | TimeseriesAnalysisPlotPolar
      "series option list" int "string option" "string option" "string list" "real list"
      "string list" "fontsize option" figsize "int option"
  | PlotPolarComparison
      array2 array2 array2 array2 array2 colormap "int list" colormap "int list"
      "string option" "string option" string real real string string string string
      "fontsize option" "figsize option" "int option" bool
  | PlotGlobalComparison
      array2 array2 array2 array2 array2 colormap "int list" colormap "int list"
      "string option" "string option" string string string string "fontsize option" figsize
      "int option"
  | Plot1D
      "real list option list" "float list list" "float list option list" "string list"
      "real list" "string list" "string option" "string option" "string option"
      "string option" figsize "int option" "real list option" "real list option" bool
  | PlotVerticalSection
      "real list" "real list" array2 colormap "int list option" "int list option"
      "string option" "string option" "string option" "string option" "string option" figsize
      "int option" "real list option" "real list option" real bool bool "int option" int string

fun run :: "env \<Rightarrow> call \<Rightarrow> unit plt" where
  "run env (TimeseriesAnalysisPlot dsvalues N title xlabel ylabel fileout lineStyles lineWidths
              legendText calendar titleFontSize figsize dpi maxXTicks) =
     timeseries_analysis_plot env dsvalues N title xlabel ylabel fileout lineStyles lineWidths
       legendText calendar titleFontSize figsize dpi maxXTicks"
| "run env (TimeseriesAnalysisPlotPolar dsvalues N title fileout lineStyles lineWidths
              legendText titleFontSize figsize dpi) =
     timeseries_analysis_plot_polar env dsvalues N title fileout lineStyles lineWidths
       legendText titleFontSize figsize dpi"
| "run env (PlotPolarComparison Lons Lats modelArray obsArray diffArray cmapModelObs
              clevsModelObs cmapDiff clevsDiff fileout title plotProjection latmin lon0
              modelTitle obsTitle diffTitle cbarlabel titleFontSize figsize dpi vertical) =
     plot_polar_comparison env Lons Lats modelArray obsArray diffArray cmapModelObs
       clevsModelObs cmapDiff clevsDiff fileout title plotProjection latmin lon0 modelTitle
       obsTitle diffTitle cbarlabel titleFontSize figsize dpi vertical"
| "run env (PlotGlobalComparison Lons Lats modelArray obsArray diffArray cmapModelObs
              clevsModelObs cmapDiff clevsDiff fileout title modelTitle obsTitle diffTitle
              cbarlabel titleFontSize figsize dpi) =
     plot_global_comparison env Lons Lats modelArray obsArray diffArray cmapModelObs
       clevsModelObs cmapDiff clevsDiff fileout title modelTitle obsTitle diffTitle cbarlabel
       titleFontSize figsize dpi"
| "run env (Plot1D xArrays fieldArrays errArrays lineColors lineWidths legendText title xlabel
              ylabel fileout figsize dpi xLim yLim invertYAxis) =
     plot_1D xArrays fieldArrays errArrays lineColors lineWidths legendText title xlabel
       ylabel fileout figsize dpi xLim yLim invertYAxis"
| "run env (PlotVerticalSection xArray depthArray fieldArray colormapName colorbarLevels
              contourLevels colorbarLabel title xlabel ylabel fileout figsize dpi xLim yLim
              linewidths invertYAxis xArrayIsTime N maxXTicks calendar) =
     plot_vertical_section env xArray depthArray fieldArray colormapName colorbarLevels
       contourLevels colorbarLabel title xlabel ylabel fileout figsize dpi xLim yLim
       linewidths invertYAxis xArrayIsTime N maxXTicks calendar"

fun fileout_of :: "call \<Rightarrow> string option" where
  "fileout_of (TimeseriesAnalysisPlot dsvalues N title xlabel ylabel fileout lineStyles
                 lineWidths legendText calendar titleFontSize figsize dpi maxXTicks) = fileout"
| "fileout_of (TimeseriesAnalysisPlotPolar dsvalues N title fileout lineStyles lineWidths
                 legendText titleFontSize figsize dpi) = fileout"
| "fileout_of (PlotPolarComparison Lons Lats modelArray obsArray diffArray cmapModelObs
                 clevsModelObs cmapDiff clevsDiff fileout title plotProjection latmin lon0
                 modelTitle obsTitle diffTitle cbarlabel titleFontSize figsize dpi vertical) =
     fileout"
| "fileout_of (PlotGlobalComparison Lons Lats modelArray obsArray diffArray cmapModelObs
                 clevsModelObs cmapDiff clevsDiff fileout title modelTitle obsTitle diffTitle
                 cbarlabel titleFontSize figsize dpi) = fileout"
| "fileout_of (Plot1D xArrays fieldArrays errArrays lineColors lineWidths legendText title
                 xlabel ylabel fileout figsize dpi xLim yLim invertYAxis) = fileout"
| "fileout_of (PlotVerticalSection xArray depthArray fieldArray colormapName colorbarLevels
                 contourLevels colorbarLabel title xlabel ylabel fileout figsize dpi xLim yLim
                 linewidths invertYAxis xArrayIsTime N maxXTicks calendar) = fileout"

fun is_call :: "event \<Rightarrow> bool" where
  "is_call (Call n a) = True"
| "is_call e = False"

definition marks :: "event list \<Rightarrow> event list" where
  "marks es = filter (\<lambda>e. \<not> is_call e) es"

definition quiet :: "'a plt \<Rightarrow> bool" where
  "quiet m = (\<forall>w. \<exists>es. snd (m w) = w\<lparr>events := events w @ es\<rparr> \<and> marks es = [])"

definition ok :: "config \<Rightarrow> event list \<Rightarrow> 'a plt \<Rightarrow> bool" where
  "ok c todo m =
     (\<forall>w. config w = c \<longrightarrow>
        (\<exists>es. snd (m w) = w\<lparr>events := events w @ es\<rparr> \<and>
              (case fst (m w) of Inr x \<Rightarrow> marks es = todo | Inl e \<Rightarrow> (\<exists>rest. todo = marks es @ rest))))"

definition resolve_dpi :: "config \<Rightarrow> int option \<Rightarrow> int" where
  "resolve_dpi c dpi =
     (case dpi of
        Some d \<Rightarrow> d
      | None \<Rightarrow> (case cfg_getint c ''plot'' ''dpi'' of Inr d \<Rightarrow> d | Inl e \<Rightarrow> 0))"

definition saving :: "string option \<Rightarrow> int \<Rightarrow> event list" where
  "saving fileout dpi = (case fileout of None \<Rightarrow> [] | Some f \<Rightarrow> [Savefig f dpi])"

definition closing :: "config \<Rightarrow> event list" where
  "closing c =
     (case cfg_getboolean c ''plot'' ''displayToScreen'' of
        Inr displayToScreen \<Rightarrow> (if displayToScreen then [] else [Close])
      | Inl e \<Rightarrow> [])"

definition shape ::
  "config \<Rightarrow> figsize \<Rightarrow> int option \<Rightarrow> nat list \<Rightarrow> string option \<Rightarrow> event list" where
  "shape c figsize dpi subplots fileout =
     Figure figsize (resolve_dpi c dpi) # map Subplot subplots
     @ saving fileout (resolve_dpi c dpi) @ closing c"

fun figure_sizes :: "event list \<Rightarrow> figsize list" where
  "figure_sizes [] = []"
| "figure_sizes (Figure s d # es) = s # figure_sizes es"
| "figure_sizes (e # es) = figure_sizes es"

fun subplot_codes :: "event list \<Rightarrow> nat list" where
  "subplot_codes [] = []"
| "subplot_codes (Subplot n # es) = n # subplot_codes es"
| "subplot_codes (e # es) = subplot_codes es"

fun expected :: "config \<Rightarrow> call \<Rightarrow> event list" where
  "expected c (TimeseriesAnalysisPlot dsvalues N title xlabel ylabel fileout lineStyles
                 lineWidths legendText calendar titleFontSize figsize dpi maxXTicks) =
     shape c figsize dpi [] fileout"
| "expected c (TimeseriesAnalysisPlotPolar dsvalues N title fileout lineStyles lineWidths
                 legendText titleFontSize figsize dpi) =
     shape c figsize dpi [] fileout"
| "expected c (PlotPolarComparison Lons Lats modelArray obsArray diffArray cmapModelObs
                 clevsModelObs cmapDiff clevsDiff fileout title plotProjection latmin lon0
                 modelTitle obsTitle diffTitle cbarlabel titleFontSize figsize dpi vertical) =
     shape c
       (if vertical then (case figsize of None \<Rightarrow> (8, 22) | Some s \<Rightarrow> s)
        else (case figsize of None \<Rightarrow> (22, 8.5) | Some s \<Rightarrow> s))
       dpi (if vertical then [311, 312, 313] else [131, 132, 133]) fileout"
| "expected c (PlotGlobalComparison Lons Lats modelArray obsArray diffArray cmapModelObs
                 clevsModelObs cmapDiff clevsDiff fileout title modelTitle obsTitle diffTitle
                 cbarlabel titleFontSize figsize dpi) =
     shape c figsize dpi [] fileout"
| "expected c (Plot1D xArrays fieldArrays errArrays lineColors lineWidths legendText title
                 xlabel ylabel fileout figsize dpi xLim yLim invertYAxis) =
     shape c figsize dpi [] fileout"
| "expected c (PlotVerticalSection xArray depthArray fieldArray colormapName colorbarLevels
                 contourLevels colorbarLabel title xlabel ylabel fileout figsize dpi xLim yLim
                 linewidths invertYAxis xArrayIsTime N maxXTicks calendar) =
     shape c figsize dpi [] fileout"


definition example_config :: "int list \<Rightarrow> int list option \<Rightarrow> config" where
  "example_config indices levels =
     \<lparr>cfg_get = (\<lambda>sec opt.
        if sec = ''plot'' then Inr ''16''
        else if sec = ''colors'' \<and> opt = ''colormapName'' then Inr ''RdBu''
        else Inl (NoOptionError opt sec)),
      cfg_getint = (\<lambda>sec opt.
        if sec = ''plot'' \<and> opt = ''dpi'' then Inr 200 else Inl (NoOptionError opt sec)),
      cfg_getboolean = (\<lambda>sec opt.
        if sec = ''plot'' \<and> opt = ''displayToScreen'' then Inr False
        else Inl (NoOptionError opt sec)),
      cfg_getExpression = (\<lambda>sec opt.
        if sec = ''colors'' \<and> opt = ''colormapIndices'' then Inr indices
        else if sec = ''colors'' \<and> opt = ''colorbarLevels''
        then (case levels of None \<Rightarrow> Inl (NoOptionError opt sec) | Some l \<Rightarrow> Inr l)
        else Inl (NoOptionError opt sec))\<rparr>"

definition example_cmap :: "string \<Rightarrow> colormap" where
  "example_cmap name =
     \<lparr>cm_name = name, cm_colors = [(0, 0, 1, 1), (1, 1, 1, 1), (1, 0, 0, 1)],
      cm_under = None, cm_over = None\<rparr>"

definition example_env :: env where
  "example_env =
     \<lparr>days_to_datetime = (\<lambda>days calendar. Inr \<lparr>year = 1 + \<lfloor>days / 365\<rfloor>, month = 1\<rparr>),
      date_to_days = (\<lambda>y m calendar. Inr (365 * real_of_int (y - 1) + 30 * real_of_int (m - 1))),
      daysInMonth = [31, 28, 31, 30, 31, 30, 31, 31, 30, 31, 30, 31],
      abrevMonthNames = [''Jan'', ''Feb'', ''Mar'', ''Apr'', ''May'', ''Jun'', ''Jul'', ''Aug'',
                         ''Sep'', ''Oct'', ''Nov'', ''Dec''],
      get_xlim = (\<lambda>es. (0, 1)),
      get_ylim = (\<lambda>es. (0, 1)),
      get_cmap = (\<lambda>name. Inr (example_cmap name)),
      project = (\<lambda>m Lons Lats. (Lons, Lats))\<rparr>"

definition example_world :: "int list \<Rightarrow> int list option \<Rightarrow> world" where
  "example_world indices levels = \<lparr>config = example_config indices levels, events = []\<rparr>"

definition example_field :: array2 where
  "example_field = \<lparr>shape0 = 1, shape1 = 3, rows = [[Some 1, Some 2, Some 4]]\<rparr>"

definition wf_array2 :: "array2 \<Rightarrow> bool" where
  "wf_array2 a = (length (rows a) = shape0 a \<and> list_all (\<lambda>r. length r = shape1 a) (rows a))"

fun with_dpi :: "int option \<Rightarrow> call \<Rightarrow> call" where
  "with_dpi v (TimeseriesAnalysisPlot dsvalues N title xlabel ylabel fileout lineStyles
                 lineWidths legendText calendar titleFontSize figsize dpi maxXTicks) =
     TimeseriesAnalysisPlot dsvalues N title xlabel ylabel fileout lineStyles lineWidths
       legendText calendar titleFontSize figsize v maxXTicks"
| "with_dpi v (TimeseriesAnalysisPlotPolar dsvalues N title fileout lineStyles lineWidths
                 legendText titleFontSize figsize dpi) =
     TimeseriesAnalysisPlotPolar dsvalues N title fileout lineStyles lineWidths legendText
       titleFontSize figsize v"
| "with_dpi v (PlotPolarComparison Lons Lats modelArray obsArray diffArray cmapModelObs
                 clevsModelObs cmapDiff clevsDiff fileout title plotProjection latmin lon0
                 modelTitle obsTitle diffTitle cbarlabel titleFontSize figsize dpi vertical) =
     PlotPolarComparison Lons Lats modelArray obsArray diffArray cmapModelObs clevsModelObs
       cmapDiff clevsDiff fileout title plotProjection latmin lon0 modelTitle obsTitle
       diffTitle cbarlabel titleFontSize figsize v vertical"
| "with_dpi v (PlotGlobalComparison Lons Lats modelArray obsArray diffArray cmapModelObs
                 clevsModelObs cmapDiff clevsDiff fileout title modelTitle obsTitle diffTitle
                 cbarlabel titleFontSize figsize dpi) =
     PlotGlobalComparison Lons Lats modelArray obsArray diffArray cmapModelObs clevsModelObs
       cmapDiff clevsDiff fileout title modelTitle obsTitle diffTitle cbarlabel titleFontSize
       figsize v"
| "with_dpi v (Plot1D xArrays fieldArrays errArrays lineColors lineWidths legendText title
                 xlabel ylabel fileout figsize dpi xLim yLim invertYAxis) =
     Plot1D xArrays fieldArrays errArrays lineColors lineWidths legendText title xlabel ylabel
       fileout figsize v xLim yLim invertYAxis"
| "with_dpi v (PlotVerticalSection xArray depthArray fieldArray colormapName colorbarLevels
                 contourLevels colorbarLabel title xlabel ylabel fileout figsize dpi xLim yLim
                 linewidths invertYAxis xArrayIsTime N maxXTicks calendar) =
     PlotVerticalSection xArray depthArray fieldArray colormapName colorbarLevels
       contourLevels colorbarLabel title xlabel ylabel fileout figsize v xLim yLim linewidths
       invertYAxis xArrayIsTime N maxXTicks calendar"

fun with_titleFontSize :: "fontsize option \<Rightarrow> call \<Rightarrow> call" where
  "with_titleFontSize v (TimeseriesAnalysisPlot dsvalues N title xlabel ylabel fileout
                           lineStyles lineWidths legendText calendar titleFontSize figsize dpi
                           maxXTicks) =
     TimeseriesAnalysisPlot dsvalues N title xlabel ylabel fileout lineStyles lineWidths
       legendText calendar v figsize dpi maxXTicks"
| "with_titleFontSize v (TimeseriesAnalysisPlotPolar dsvalues N title fileout lineStyles
                           lineWidths legendText titleFontSize figsize dpi) =
     TimeseriesAnalysisPlotPolar dsvalues N title fileout lineStyles lineWidths legendText
       v figsize dpi"
| "with_titleFontSize v (PlotPolarComparison Lons Lats modelArray obsArray diffArray
                           cmapModelObs clevsModelObs cmapDiff clevsDiff fileout title
                           plotProjection latmin lon0 modelTitle obsTitle diffTitle cbarlabel
                           titleFontSize figsize dpi vertical) =
     PlotPolarComparison Lons Lats modelArray obsArray diffArray cmapModelObs clevsModelObs
       cmapDiff clevsDiff fileout title plotProjection latmin lon0 modelTitle obsTitle
       diffTitle cbarlabel v figsize dpi vertical"
| "with_titleFontSize v (PlotGlobalComparison Lons Lats modelArray obsArray diffArray
                           cmapModelObs clevsModelObs cmapDiff clevsDiff fileout title
                           modelTitle obsTitle diffTitle cbarlabel titleFontSize figsize dpi) =
     PlotGlobalComparison Lons Lats modelArray obsArray diffArray cmapModelObs clevsModelObs
       cmapDiff clevsDiff fileout title modelTitle obsTitle diffTitle cbarlabel v figsize dpi"
| "with_titleFontSize v c = c"

definition keeps_config :: "'a plt \<Rightarrow> bool" where
  "keeps_config m = (\<forall>w. config (snd (m w)) = config w)"

definition agree :: "config \<Rightarrow> 'a plt \<Rightarrow> 'a plt \<Rightarrow> bool" where
  "agree c m n = (\<forall>w. config w = c \<longrightarrow> m w = n w)"

definition example_series :: series where
  "example_series = \<lparr>Time = [0, 31], data = [Some 1, Some 2]\<rparr>"

definition example_grid :: array2 where
  "example_grid = \<lparr>shape0 = 1, shape1 = 1, rows = [[Some 0]]\<rparr>"

definition example_timeseries :: call where
  "example_timeseries =
     TimeseriesAnalysisPlot [Some example_series] 1 (Some ''SST'') None None (Some ''sst.png'')
       [''k-''] [1] [''model''] ''gregorian'' None (15, 6) None 20"

definition example_timeseries_polar :: call where
  "example_timeseries_polar =
     TimeseriesAnalysisPlotPolar [Some example_series] 1 (Some ''Ice area'')
       (Some ''ice.png'') [''k-''] [1] [''model''] None (15, 6) None"

definition example_polar_comparison :: call where
  "example_polar_comparison =
     PlotPolarComparison example_grid example_grid example_grid example_grid example_grid
       (example_cmap ''RdBu'') [0, 1] (example_cmap ''RdBu'') [0, 1] (Some ''polar.png'')
       (Some ''Ice concentration'') ''npstere'' 50 0 ''Model'' ''Observations''
       ''Model-Observations'' ''units'' None None None False"

definition example_global_comparison :: call where
  "example_global_comparison =
     PlotGlobalComparison example_grid example_grid example_grid example_grid example_grid
       (example_cmap ''RdBu'') [0, 1] (example_cmap ''RdBu'') [0, 1] (Some ''global.png'')
       (Some ''SST'') ''Model'' ''Observations'' ''Model-Observations'' ''units'' None (8, 12)
       None"

definition example_plot_1D :: call where
  "example_plot_1D =
     Plot1D [Some [0, 1]] [[Some 1, Some 2]] [None] [''k''] [1] [''model''] (Some ''MOC'')
       None None (Some ''plot_1D.png'') (10, 4) None None None False"

definition example_vertical_section :: call where
  "example_vertical_section =
     PlotVerticalSection [0, 1, 2] [5] example_field (example_cmap ''RdBu'') None None None
       (Some ''Transect'') None None (Some ''section.png'') (10, 4) None None None 2 True
       False (Some 3) 20 ''gregorian''"


fun dpis :: "event list \<Rightarrow> int list" where
  "dpis [] = []"
| "dpis (Figure s d # es) = d # dpis es"
| "dpis (Savefig f d # es) = d # dpis es"
| "dpis (e # es) = dpis es"

definition title_font :: "event \<Rightarrow> (string \<times> fontsize) option" where
  \<comment> \<open>the title and the font size of a call \<^verbatim>\<open>plt.title(t, **title_font)\<close> or
      \<^verbatim>\<open>fig.suptitle(t, **title_font)\<close>\<close>
  "title_font e =
     (case e of
        Call n args \<Rightarrow>
          (case args of
             [a, b] \<Rightarrow>
               (case a of
                  AStr t \<Rightarrow> (case b of AFont fo \<Rightarrow> Some (t, font_size fo) | _ \<Rightarrow> None)
                | _ \<Rightarrow> None)
           | _ \<Rightarrow> None)
      | _ \<Rightarrow> None)"

definition title_fonts :: "event list \<Rightarrow> (string \<times> fontsize) list" where
  "title_fonts es = List.map_filter title_font es"

fun title_of :: "call \<Rightarrow> string option" where
  "title_of (TimeseriesAnalysisPlot dsvalues N title xlabel ylabel fileout lineStyles
               lineWidths legendText calendar titleFontSize figsize dpi maxXTicks) = title"
| "title_of (TimeseriesAnalysisPlotPolar dsvalues N title fileout lineStyles lineWidths
               legendText titleFontSize figsize dpi) = title"
| "title_of (PlotPolarComparison Lons Lats modelArray obsArray diffArray cmapModelObs
               clevsModelObs cmapDiff clevsDiff fileout title plotProjection latmin lon0
               modelTitle obsTitle diffTitle cbarlabel titleFontSize figsize dpi vertical) =
     title"
| "title_of (PlotGlobalComparison Lons Lats modelArray obsArray diffArray cmapModelObs
               clevsModelObs cmapDiff clevsDiff fileout title modelTitle obsTitle diffTitle
               cbarlabel titleFontSize figsize dpi) = title"
| "title_of (Plot1D xArrays fieldArrays errArrays lineColors lineWidths legendText title
               xlabel ylabel fileout figsize dpi xLim yLim invertYAxis) = title"
| "title_of (PlotVerticalSection xArray depthArray fieldArray colormapName colorbarLevels
               contourLevels colorbarLabel title xlabel ylabel fileout figsize dpi xLim yLim
               linewidths invertYAxis xArrayIsTime N maxXTicks calendar) = title"

definition grows :: "'a plt \<Rightarrow> bool" where
  "grows m = (\<forall>w. \<exists>es. snd (m w) = w\<lparr>events := events w @ es\<rparr>)"

definition emits :: "config \<Rightarrow> (event \<Rightarrow> bool) \<Rightarrow> 'a plt \<Rightarrow> bool" where
  "emits c Q m =
     (\<forall>w. config w = c \<longrightarrow>
        (\<forall>x. fst (m w) = Inr x \<longrightarrow>
           (\<exists>es. snd (m w) = w\<lparr>events := events w @ es\<rparr> \<and> (\<exists>e \<in> set es. Q e))))"








lemma marks_append: "marks (a @ b) = marks a @ marks b"
  by (simp add: marks_def)

lemma quiet_ret: "quiet (ret x)"
  unfolding quiet_def ret_def by (auto simp: marks_def intro: exI[where x="[]"])

lemma quiet_raise: "quiet (raise e)"
  unfolding quiet_def raise_def by (auto simp: marks_def intro: exI[where x="[]"])

lemma quiet_lift: "quiet (lift r)"
  unfolding quiet_def lift_def by (auto simp: marks_def intro: exI[where x="[]"])

lemma quiet_outside: "quiet (outside r)"
  unfolding outside_def by (rule quiet_lift)

lemma quiet_emit: "quiet (emit (Call n a))"
  unfolding quiet_def emit_def by (auto simp: marks_def)

lemma quiet_config_get: "quiet (config_get s opt)"
  unfolding quiet_def config_get_def by (auto simp: marks_def intro: exI[where x="[]"])

lemma quiet_config_getint: "quiet (config_getint s opt)"
  unfolding quiet_def config_getint_def by (auto simp: marks_def intro: exI[where x="[]"])

lemma quiet_config_getboolean: "quiet (config_getboolean s opt)"
  unfolding quiet_def config_getboolean_def by (auto simp: marks_def intro: exI[where x="[]"])

lemma quiet_config_getExpression: "quiet (config_getExpression s opt)"
  unfolding quiet_def config_getExpression_def by (auto simp: marks_def intro: exI[where x="[]"])

lemma quiet_ax_get_ylim: "quiet (ax_get_ylim env)"
  unfolding quiet_def ax_get_ylim_def by (auto simp: marks_def intro: exI[where x="[]"])

lemma quiet_ax_get_xlim: "quiet (ax_get_xlim env)"
  unfolding quiet_def ax_get_xlim_def by (auto simp: marks_def intro: exI[where x="[]"])

lemma bind_Inl: "fst (m w) = Inl e \<Longrightarrow> bind m f w = (Inl e, snd (m w))"
  by (cases "m w") (simp add: bind_def)

lemma bind_Inr: "fst (m w) = Inr x \<Longrightarrow> bind m f w = f x (snd (m w))"
  by (cases "m w") (simp add: bind_def)

lemma quiet_bind:
  assumes m: "quiet m" and f: "\<And>x. quiet (f x)"
  shows "quiet (bind m f)"
  unfolding quiet_def
proof
  fix w
  from m obtain es where es: "snd (m w) = w\<lparr>events := events w @ es\<rparr>" "marks es = []"
    unfolding quiet_def by blast
  show "\<exists>es. snd (bind m f w) = w\<lparr>events := events w @ es\<rparr> \<and> marks es = []"
  proof (cases "fst (m w)")
    case (Inl e)
    then have "bind m f w = (Inl e, snd (m w))"
      by (rule bind_Inl)
    with es show ?thesis by auto
  next
    case (Inr x)
    then have b: "bind m f w = f x (snd (m w))"
      by (rule bind_Inr)
    from f[of x] obtain es' where
      es': "snd (f x (snd (m w))) = (snd (m w))\<lparr>events := events (snd (m w)) @ es'\<rparr>"
        "marks es' = []"
      unfolding quiet_def by blast
    have "snd (bind m f w) = w\<lparr>events := events w @ (es @ es')\<rparr>"
      using b es es' by simp
    moreover have "marks (es @ es') = []" using es es' by (simp add: marks_append)
    ultimately show ?thesis by blast
  qed
qed

lemma quiet_if: "quiet a \<Longrightarrow> quiet b \<Longrightarrow> quiet (if c then a else b)"
  by simp

lemma quiet_case_option:
  "quiet a \<Longrightarrow> (\<And>x. quiet (f x)) \<Longrightarrow> quiet (case v of None \<Rightarrow> a | Some x \<Rightarrow> f x)"
  by (cases v) simp_all

lemma quiet_case_prod: "(\<And>a b. quiet (f a b)) \<Longrightarrow> quiet (case p of (a, b) \<Rightarrow> f a b)"
  by (cases p) simp

lemma quiet_when_some: "(\<And>x. quiet (f x)) \<Longrightarrow> quiet (when_some v f)"
  unfolding when_some_def by (cases v) (simp_all add: quiet_ret)

lemma quiet_for_each: "(\<And>i s. quiet (body i s)) \<Longrightarrow> quiet (for_each xs body s)"
  by (induction xs arbitrary: s) (simp_all add: quiet_ret quiet_bind)

lemma quiet_catch:
  assumes m: "quiet m" and h: "\<And>e. quiet (h e)"
  shows "quiet (catch m h)"
  unfolding quiet_def
proof
  fix w
  from m obtain es where es: "snd (m w) = w\<lparr>events := events w @ es\<rparr>" "marks es = []"
    unfolding quiet_def by blast
  show "\<exists>es. snd (catch m h w) = w\<lparr>events := events w @ es\<rparr> \<and> marks es = []"
  proof (cases "fst (m w)")
    case (Inr x)
    then have "catch m h w = (Inr x, snd (m w))"
      by (cases "m w") (simp add: catch_def)
    with es show ?thesis by auto
  next
    case (Inl e)
    then have b: "catch m h w = h e (snd (m w))"
      by (cases "m w") (simp add: catch_def)
    from h[of e] obtain es' where
      es': "snd (h e (snd (m w))) = (snd (m w))\<lparr>events := events (snd (m w)) @ es'\<rparr>"
        "marks es' = []"
      unfolding quiet_def by blast
    have "snd (catch m h w) = w\<lparr>events := events w @ (es @ es')\<rparr>"
      using b es es' by simp
    moreover have "marks (es @ es') = []" using es es' by (simp add: marks_append)
    ultimately show ?thesis by blast
  qed
qed

lemmas quiet_intros =
  quiet_ret quiet_raise quiet_lift quiet_outside quiet_emit quiet_config_get quiet_config_getint
  quiet_config_getboolean quiet_config_getExpression quiet_ax_get_ylim quiet_ax_get_xlim
  quiet_bind quiet_if quiet_case_option quiet_case_prod quiet_when_some quiet_for_each
  quiet_catch

lemma quiet_plot_xtick_format: "quiet (plot_xtick_format env calendar minDays maxDays maxXTicks)"
  unfolding plot_xtick_format_def by (intro quiet_intros)

lemma quiet_timeseries_body:
  "quiet (timeseries_body dsvalues N lineStyles lineWidths legendText dsIndex st)"
  unfolding timeseries_body_def by (intro quiet_intros)

lemma quiet_timeseries_polar_body:
  "quiet (timeseries_polar_body dsvalues N lineStyles lineWidths legendText dsIndex st)"
  unfolding timeseries_polar_body_def by (intro quiet_intros)

lemma quiet_do_subplot:
  "quiet (do_subplot env plotProjection latmin lon0 Lons Lats axis_size cbarlabel
            field title cmap nrm levels)"
  unfolding do_subplot_def by (intro quiet_intros)

lemma quiet_global_panel:
  "quiet (global_panel m xy index panelTitle axis_size meridianStep field cmap nrm levels
            bounds cbarlabel)"
  unfolding global_panel_def by (intro quiet_intros)

lemma quiet_plot_1D_body:
  "quiet (plot_1D_body xArrays fieldArrays errArrays lineColors lineWidths legendText dsIndex p)"
  unfolding plot_1D_body_def by (intro quiet_intros)

lemma quiet_plot_size_y_axis: "quiet (plot_size_y_axis env xaxisValues curves)"
  unfolding plot_size_y_axis_def
  by (intro quiet_intros) (auto split: prod.splits intro!: quiet_intros)

lemma quiet_handler:
  "quiet (case e of Foreign (NoOptionError sec opt) \<Rightarrow> ret None | _ \<Rightarrow> raise e)"
  by (simp add: quiet_ret quiet_raise split: error.splits foreign.splits)

lemma quiet_setup_colormap: "quiet (setup_colormap env configSectionName suffix)"
  unfolding setup_colormap_def by (intro quiet_intros quiet_handler)

lemma okI:
  assumes "\<And>w::world. config w = c \<Longrightarrow>
     \<exists>es. snd (m w) = w\<lparr>events := events w @ es\<rparr> \<and>
          (case fst (m w) of Inr x \<Rightarrow> marks es = todo | Inl e \<Rightarrow> (\<exists>rest. todo = marks es @ rest))"
  shows "ok c todo m"
  using assms unfolding ok_def by blast

lemma ok_step:
  assumes step: "\<And>w::world. config w = c \<Longrightarrow>
            snd (m w) = w\<lparr>events := events w @ es\<rparr> \<and> (\<forall>x. fst (m w) = Inr x \<longrightarrow> x = v)"
    and pre: "marks es = pre"
    and rest: "ok c todo (f v)"
  shows "ok c (pre @ todo) (bind m f)"
proof (rule okI)
  fix w :: world assume c: "config w = c"
  from step[OF c] pre have
    es: "snd (m w) = w\<lparr>events := events w @ es\<rparr>" "marks es = pre"
      "\<And>x. fst (m w) = Inr x \<Longrightarrow> x = v"
    by blast+
  show "\<exists>es. snd (bind m f w) = w\<lparr>events := events w @ es\<rparr> \<and>
          (case fst (bind m f w) of Inr x \<Rightarrow> marks es = pre @ todo
           | Inl e \<Rightarrow> (\<exists>rest. pre @ todo = marks es @ rest))"
  proof (cases "fst (m w)")
    case (Inl e)
    then have "bind m f w = (Inl e, snd (m w))" by (rule bind_Inl)
    with es show ?thesis by auto
  next
    case (Inr x)
    with es have x: "x = v" by simp
    from Inr have b: "bind m f w = f v (snd (m w))" unfolding x by (rule bind_Inr)
    have c': "config (snd (m w)) = c" using es c by simp
    from rest c' obtain es' where
      es': "snd (f v (snd (m w))) = (snd (m w))\<lparr>events := events (snd (m w)) @ es'\<rparr>"
        "case fst (f v (snd (m w))) of Inr y \<Rightarrow> marks es' = todo
         | Inl e \<Rightarrow> (\<exists>rest. todo = marks es' @ rest)"
      unfolding ok_def by blast
    have s: "snd (bind m f w) = w\<lparr>events := events w @ (es @ es')\<rparr>"
      using b es es' by simp
    have "case fst (bind m f w) of Inr x \<Rightarrow> marks (es @ es') = pre @ todo
          | Inl e \<Rightarrow> (\<exists>rest. pre @ todo = marks (es @ es') @ rest)"
      using es'(2) es(2) unfolding b by (auto simp: marks_append split: sum.splits)
    with s show ?thesis by blast
  qed
qed

lemma ok_quiet_bind:
  assumes m: "quiet m" and f: "\<And>x. ok c todo (f x)"
  shows "ok c todo (bind m f)"
proof (rule okI)
  fix w :: world assume c: "config w = c"
  from m obtain es where es: "snd (m w) = w\<lparr>events := events w @ es\<rparr>" "marks es = []"
    unfolding quiet_def by blast
  show "\<exists>es. snd (bind m f w) = w\<lparr>events := events w @ es\<rparr> \<and>
          (case fst (bind m f w) of Inr x \<Rightarrow> marks es = todo
           | Inl e \<Rightarrow> (\<exists>rest. todo = marks es @ rest))"
  proof (cases "fst (m w)")
    case (Inl e)
    then have "bind m f w = (Inl e, snd (m w))" by (rule bind_Inl)
    with es show ?thesis by auto
  next
    case (Inr x)
    then have b: "bind m f w = f x (snd (m w))" by (rule bind_Inr)
    have c': "config (snd (m w)) = c" using es c by simp
    from f[of x] c' obtain es' where
      es': "snd (f x (snd (m w))) = (snd (m w))\<lparr>events := events (snd (m w)) @ es'\<rparr>"
        "case fst (f x (snd (m w))) of Inr y \<Rightarrow> marks es' = todo
         | Inl e \<Rightarrow> (\<exists>rest. todo = marks es' @ rest)"
      unfolding ok_def by blast
    have s: "snd (bind m f w) = w\<lparr>events := events w @ (es @ es')\<rparr>"
      using b es es' by simp
    have "case fst (bind m f w) of Inr x \<Rightarrow> marks (es @ es') = todo
          | Inl e \<Rightarrow> (\<exists>rest. todo = marks (es @ es') @ rest)"
      using es'(2) es(2) unfolding b by (auto simp: marks_append split: sum.splits)
    with s show ?thesis by blast
  qed
qed

lemma ok_figure_bind:
  assumes "ok c todo (f ())"
  shows "ok c (Figure s d # todo) (bind (emit (Figure s d)) f)"
proof -
  have "ok c ([Figure s d] @ todo) (bind (emit (Figure s d)) f)"
    by (rule ok_step[where v = "()" and es = "[Figure s d]"])
       (simp_all add: emit_def marks_def assms)
  then show ?thesis by simp
qed

lemma ok_subplot_bind:
  assumes "ok c todo (f ())"
  shows "ok c (Subplot n # todo) (bind (emit (Subplot n)) f)"
proof -
  have "ok c ([Subplot n] @ todo) (bind (emit (Subplot n)) f)"
    by (rule ok_step[where v = "()" and es = "[Subplot n]"])
       (simp_all add: emit_def marks_def assms)
  then show ?thesis by simp
qed

lemma ok_savefig_bind:
  assumes "ok c todo (f ())"
  shows "ok c (saving fileout dpi @ todo)
           (bind (when_some fileout (\<lambda>f. emit (Savefig f dpi))) f)"
  by (rule ok_step[where v = "()" and es = "saving fileout dpi"])
     (auto simp: when_some_def saving_def emit_def ret_def marks_def assms
           split: option.splits)

lemma ok_dpi_bind:
  assumes "ok c todo (f (resolve_dpi c dpi))"
  shows "ok c todo
           (bind (case dpi of None \<Rightarrow> config_getint ''plot'' ''dpi'' | Some d \<Rightarrow> ret d) f)"
proof -
  have "ok c ([] @ todo)
           (bind (case dpi of None \<Rightarrow> config_getint ''plot'' ''dpi'' | Some d \<Rightarrow> ret d) f)"
  proof (rule ok_step[where v = "resolve_dpi c dpi" and es = "[]"])
    show "ok c todo (f (resolve_dpi c dpi))" by fact
    show "marks [] = []" by (simp add: marks_def)
    fix w :: world assume "config w = c"
    then show "snd ((case dpi of None \<Rightarrow> config_getint ''plot'' ''dpi'' | Some d \<Rightarrow> ret d) w)
                 = w\<lparr>events := events w @ []\<rparr> \<and>
               (\<forall>x. fst ((case dpi of None \<Rightarrow> config_getint ''plot'' ''dpi''
                              | Some d \<Rightarrow> ret d) w) = Inr x \<longrightarrow> x = resolve_dpi c dpi)"
      by (auto simp: config_getint_def ret_def resolve_dpi_def of_foreign_def
               split: option.splits sum.splits)
  qed
  then show ?thesis by simp
qed

lemma ok_ret_bind:
  assumes "ok c todo (f v)"
  shows "ok c todo (bind (ret v) f)"
proof -
  have "ok c ([] @ todo) (bind (ret v) f)"
    by (rule ok_step[where v = v and es = "[]"]) (simp_all add: ret_def marks_def assms)
  then show ?thesis by simp
qed

lemma ok_lift_bind:
  assumes "r = Inr v" and "ok c todo (f v)"
  shows "ok c todo (bind (lift r) f)"
proof -
  have "ok c ([] @ todo) (bind (lift r) f)"
    by (rule ok_step[where v = v and es = "[]"]) (simp_all add: lift_def marks_def assms)
  then show ?thesis by simp
qed

lemma ok_raise: "ok c todo (raise e)"
  by (rule okI, rule exI[where x = "[]"]) (simp add: raise_def marks_def)

lemma ok_close: "ok c [Close] (emit Close)"
  by (rule okI, rule exI[where x = "[Close]"]) (simp add: emit_def marks_def)

lemma ok_ret: "ok c [] (ret x)"
  by (rule okI, rule exI[where x = "[]"]) (simp add: ret_def marks_def)

lemma ok_tail:
  "ok c (closing c)
     (bind (config_getboolean ''plot'' ''displayToScreen'')
        (\<lambda>displayToScreen. if \<not> displayToScreen then emit Close else ret ()))"
proof (cases "cfg_getboolean c ''plot'' ''displayToScreen''")
  case (Inl e)
  show ?thesis
    by (rule okI, rule exI[where x = "[]"])
       (simp add: bind_def config_getboolean_def closing_def marks_def of_foreign_def Inl)
next
  case (Inr d)
  have "ok c ([] @ closing c)
     (bind (config_getboolean ''plot'' ''displayToScreen'')
        (\<lambda>displayToScreen. if \<not> displayToScreen then emit Close else ret ()))"
    by (rule ok_step[where v = d and es = "[]"])
       (simp_all add: config_getboolean_def marks_def Inr closing_def of_foreign_def
          ok_close ok_ret)
  then show ?thesis by simp
qed

lemma ok_pair: "ok c todo (g a b) \<Longrightarrow> ok c todo (case (a, b) of (x, y) \<Rightarrow> g x y)"
  by simp

lemma ok_case_prod: "(\<And>a b. ok c todo (f a b)) \<Longrightarrow> ok c todo (case p of (a, b) \<Rightarrow> f a b)"
  by (cases p) simp

lemma ok_if: "(b \<Longrightarrow> ok c todo x) \<Longrightarrow> (\<not> b \<Longrightarrow> ok c todo y) \<Longrightarrow> ok c todo (if b then x else y)"
  by simp

lemmas quiet_all =
  quiet_intros quiet_plot_xtick_format quiet_timeseries_body quiet_timeseries_polar_body
  quiet_do_subplot quiet_global_panel quiet_plot_1D_body

lemma ok_timeseries_analysis_plot:
  "ok c (shape c figsize dpi [] fileout)
     (timeseries_analysis_plot env dsvalues N title xlabel ylabel fileout lineStyles lineWidths
        legendText calendar titleFontSize figsize dpi maxXTicks)"
  unfolding timeseries_analysis_plot_def shape_def list.map append_Nil
  by (rule ok_tail | rule ok_savefig_bind | rule ok_figure_bind | rule ok_dpi_bind
      | rule ok_ret_bind | rule ok_pair | rule ok_case_prod
      | (rule ok_quiet_bind, (intro quiet_all)[1]))+

lemma ok_timeseries_analysis_plot_polar:
  "ok c (shape c figsize dpi [] fileout)
     (timeseries_analysis_plot_polar env dsvalues N title fileout lineStyles lineWidths
        legendText titleFontSize figsize dpi)"
  unfolding timeseries_analysis_plot_polar_def shape_def list.map append_Nil
  by (rule ok_tail | rule ok_savefig_bind | rule ok_figure_bind | rule ok_dpi_bind
      | rule ok_ret_bind | rule ok_pair | rule ok_case_prod
      | (rule ok_quiet_bind, (intro quiet_all)[1]))+

lemma ok_plot_global_comparison:
  "ok c (shape c figsize dpi [] fileout)
     (plot_global_comparison env Lons Lats modelArray obsArray diffArray cmapModelObs
        clevsModelObs cmapDiff clevsDiff fileout title modelTitle obsTitle diffTitle cbarlabel
        titleFontSize figsize dpi)"
  unfolding plot_global_comparison_def shape_def list.map append_Nil
  by (rule ok_tail | rule ok_savefig_bind | rule ok_figure_bind | rule ok_dpi_bind
      | rule ok_ret_bind | rule ok_pair | rule ok_case_prod
      | (rule ok_quiet_bind, (intro quiet_all)[1]))+

lemma ok_plot_1D:
  "ok c (shape c figsize dpi [] fileout)
     (plot_1D xArrays fieldArrays errArrays lineColors lineWidths legendText title xlabel
        ylabel fileout figsize dpi xLim yLim invertYAxis)"
  unfolding plot_1D_def shape_def list.map append_Nil
  by (rule ok_tail | rule ok_savefig_bind | rule ok_figure_bind | rule ok_dpi_bind
      | rule ok_ret_bind | rule ok_pair | rule ok_case_prod
      | (rule ok_quiet_bind, (intro quiet_all)[1]))+

lemma ok_plot_vertical_section:
  "ok c (shape c figsize dpi [] fileout)
     (plot_vertical_section env xArray depthArray fieldArray colormapName colorbarLevels
        contourLevels colorbarLabel title xlabel ylabel fileout figsize dpi xLim yLim
        linewidths invertYAxis xArrayIsTime N maxXTicks calendar)"
  unfolding plot_vertical_section_def shape_def list.map append_Nil
  by (rule ok_tail | rule ok_savefig_bind | rule ok_figure_bind | rule ok_dpi_bind
      | rule ok_ret_bind | rule ok_pair | rule ok_case_prod | rule ok_if | rule ok_raise
      | (rule ok_quiet_bind, (intro quiet_all)[1]))+

lemma ok_plot_polar_comparison:
  "ok c (shape c
           (if vertical then (case figsize of None \<Rightarrow> (8, 22) | Some s \<Rightarrow> s)
            else (case figsize of None \<Rightarrow> (22, 8.5) | Some s \<Rightarrow> s))
           dpi (if vertical then [311, 312, 313] else [131, 132, 133]) fileout)
     (plot_polar_comparison env Lons Lats modelArray obsArray diffArray cmapModelObs
        clevsModelObs cmapDiff clevsDiff fileout title plotProjection latmin lon0 modelTitle
        obsTitle diffTitle cbarlabel titleFontSize figsize dpi vertical)"
proof (cases vertical)
  case True
  then have v: "vertical = True" by simp
  show ?thesis
    unfolding v plot_polar_comparison_def shape_def if_True list.map append_Cons append_Nil
    by (rule ok_tail | rule ok_savefig_bind | rule ok_figure_bind | rule ok_subplot_bind
        | rule ok_dpi_bind | rule ok_ret_bind | rule ok_pair | rule ok_case_prod
        | (rule ok_lift_bind, (simp add: py_index_def)[1])
        | (rule ok_quiet_bind, (intro quiet_all)[1]))+
next
  case False
  then have v: "vertical = False" by simp
  show ?thesis
    unfolding v plot_polar_comparison_def shape_def if_False list.map append_Cons append_Nil
    by (rule ok_tail | rule ok_savefig_bind | rule ok_figure_bind | rule ok_subplot_bind
        | rule ok_dpi_bind | rule ok_ret_bind | rule ok_pair | rule ok_case_prod
        | (rule ok_lift_bind, (simp add: py_index_def)[1])
        | (rule ok_quiet_bind, (intro quiet_all)[1]))+
qed

lemma ok_run: "ok c (expected c call) (run env call)"
  by (cases call)
     (simp_all add: ok_timeseries_analysis_plot ok_timeseries_analysis_plot_polar
        ok_plot_polar_comparison ok_plot_global_comparison ok_plot_1D
        ok_plot_vertical_section)

lemma written_append: "written (a @ b) = written a @ written b"
  by (induction a rule: written.induct) simp_all

lemma written_marks: "written (marks es) = written es"
  unfolding marks_def by (induction es rule: written.induct) simp_all



lemma figure_sizes_append: "figure_sizes (a @ b) = figure_sizes a @ figure_sizes b"
  by (induction a rule: figure_sizes.induct) simp_all

lemma figure_sizes_marks: "figure_sizes (marks es) = figure_sizes es"
  unfolding marks_def by (induction es rule: figure_sizes.induct) simp_all

lemma subplot_codes_append: "subplot_codes (a @ b) = subplot_codes a @ subplot_codes b"
  by (induction a rule: subplot_codes.induct) simp_all

lemma subplot_codes_marks: "subplot_codes (marks es) = subplot_codes es"
  unfolding marks_def by (induction es rule: subplot_codes.induct) simp_all

lemma written_subplots: "written (map Subplot ns) = []"
  by (induction ns) simp_all


lemma figure_sizes_subplots: "figure_sizes (map Subplot ns) = []"
  by (induction ns) simp_all

lemma subplot_codes_subplots: "subplot_codes (map Subplot ns) = ns"
  by (induction ns) simp_all

lemma written_shape:
  "written (shape c figsize dpi ns fileout) = (case fileout of None \<Rightarrow> [] | Some f \<Rightarrow> [f])"
  by (simp add: shape_def saving_def closing_def written_append written_subplots
           split: option.splits sum.splits)

lemma written_expected:
  "written (expected c call) = (case fileout_of call of None \<Rightarrow> [] | Some f \<Rightarrow> [f])"
  by (cases call) (simp_all add: written_shape)



lemma run_events:
  "\<exists>es. snd (run env call w) = w\<lparr>events := events w @ es\<rparr> \<and>
        (\<forall>x. fst (run env call w) = Inr x \<longrightarrow> marks es = expected (config w) call) \<and>
        (\<forall>e. fst (run env call w) = Inl e \<longrightarrow>
             (\<exists>rest. expected (config w) call = marks es @ rest))"
proof -
  from ok_run[of "config w" call env] obtain es where
    es: "snd (run env call w) = w\<lparr>events := events w @ es\<rparr>"
      "case fst (run env call w) of Inr x \<Rightarrow> marks es = expected (config w) call
       | Inl e \<Rightarrow> (\<exists>rest. expected (config w) call = marks es @ rest)"
    unfolding ok_def by blast
  from es(2) have
    "(\<forall>x. fst (run env call w) = Inr x \<longrightarrow> marks es = expected (config w) call) \<and>
     (\<forall>e. fst (run env call w) = Inl e \<longrightarrow>
          (\<exists>rest. expected (config w) call = marks es @ rest))"
    by (auto split: sum.splits)
  with es(1) show ?thesis by blast
qed

text \<open>
  Claim C5. A call of any of the six plotting routines only appends library calls to the
  trace, and among them at most one \<^verbatim>\<open>plt.savefig\<close>, which writes the file named by
  \<^verbatim>\<open>fileout\<close>; with \<^verbatim>\<open>fileout=None\<close> no file is written. This holds whether the call
  returns or raises.
\<close>

theorem one_output_file:
  "\<exists>es. events (snd (run env call w)) = events w @ es \<and>
        (case fileout_of call of
           None \<Rightarrow> written es = []
         | Some f \<Rightarrow> written es = [] \<or> written es = [f])"
proof -
  from run_events[of env call w] obtain es where
    es: "snd (run env call w) = w\<lparr>events := events w @ es\<rparr>"
    and ok: "\<And>x. fst (run env call w) = Inr x \<Longrightarrow> marks es = expected (config w) call"
    and err: "\<And>e. fst (run env call w) = Inl e \<Longrightarrow>
                \<exists>rest. expected (config w) call = marks es @ rest"
    by blast
  have "\<exists>rest. expected (config w) call = marks es @ rest"
    using ok err by (cases "fst (run env call w)") auto
  then obtain rest where "expected (config w) call = marks es @ rest" ..
  then have "written (expected (config w) call) = written es @ written rest"
    by (simp add: written_append written_marks)
  then have "written es @ written rest = (case fileout_of call of None \<Rightarrow> [] | Some f \<Rightarrow> [f])"
    by (simp add: written_expected)
  then have "case fileout_of call of
               None \<Rightarrow> written es = []
             | Some f \<Rightarrow> written es = [] \<or> written es = [f]"
    by (auto split: option.splits simp: append_eq_Cons_conv)
  moreover have "events (snd (run env call w)) = events w @ es"
    by (simp add: es)
  ultimately show ?thesis by blast
qed


lemma quiet_config: "quiet m \<Longrightarrow> config (snd (m w)) = config w"
proof -
  assume "quiet m"
  then obtain es where "snd (m w) = w\<lparr>events := events w @ es\<rparr>"
    unfolding quiet_def by blast
  then show ?thesis by simp
qed

text \<open>
  Claim C7. Every routine that is given the configuration object leaves it as it was,
  whether it returns or raises: the six plotting routines and \<^verbatim>\<open>setup_colormap\<close>; so
  do \<^verbatim>\<open>plot_xtick_format\<close> and \<^verbatim>\<open>plot_size_y_axis\<close>, which never see it. The only
  operations on it in the embedding are the four accessors.
\<close>

theorem config_read_only:
  "config (snd (run env call w)) = config w \<and>
   config (snd (setup_colormap env configSectionName suffix w)) = config w \<and>
   config (snd (plot_xtick_format env calendar minDays maxDays maxXTicks w)) = config w \<and>
   config (snd (plot_size_y_axis env xaxisValues curves w)) = config w"
proof -
  from run_events[of env call w] obtain es where
    "snd (run env call w) = w\<lparr>events := events w @ es\<rparr>"
    by blast
  then have "config (snd (run env call w)) = config w" by simp
  then show ?thesis
    by (simp add: quiet_config quiet_setup_colormap quiet_plot_xtick_format
          quiet_plot_size_y_axis)
qed

text \<open>
  Claim C10. A call of \<^verbatim>\<open>plot_polar_comparison\<close> with \<^verbatim>\<open>figsize=None\<close> that returns has
  created one figure, of size (8, 22) when \<^verbatim>\<open>vertical\<close> is true and (22, 8.5) otherwise,
  and has selected the panels 311, 312, 313 when \<^verbatim>\<open>vertical\<close> is true and 131, 132, 133
  otherwise, in this order.
\<close>

theorem polar_comparison_layout:
  assumes "fst (plot_polar_comparison env Lons Lats modelArray obsArray diffArray cmapModelObs
                  clevsModelObs cmapDiff clevsDiff fileout title plotProjection latmin lon0
                  modelTitle obsTitle diffTitle cbarlabel titleFontSize None dpi vertical w)
           = Inr u"
  shows "\<exists>es. events (snd (plot_polar_comparison env Lons Lats modelArray obsArray diffArray
                          cmapModelObs clevsModelObs cmapDiff clevsDiff fileout title
                          plotProjection latmin lon0 modelTitle obsTitle diffTitle cbarlabel
                          titleFontSize None dpi vertical w)) = events w @ es \<and>
              figure_sizes es = [if vertical then (8, 22) else (22, 8.5)] \<and>
              subplot_codes es = (if vertical then [311, 312, 313] else [131, 132, 133])"
proof -
  let ?m = "plot_polar_comparison env Lons Lats modelArray obsArray diffArray cmapModelObs
              clevsModelObs cmapDiff clevsDiff fileout title plotProjection latmin lon0
              modelTitle obsTitle diffTitle cbarlabel titleFontSize None dpi vertical"
  let ?todo = "shape (config w)
           (if vertical then (case None of None \<Rightarrow> (8, 22) | Some s \<Rightarrow> s)
            else (case None of None \<Rightarrow> (22, 8.5) | Some s \<Rightarrow> s))
           dpi (if vertical then [311, 312, 313] else [131, 132, 133]) fileout"
  have "ok (config w) ?todo ?m" by (rule ok_plot_polar_comparison)
  then obtain es where
    es: "snd (?m w) = w\<lparr>events := events w @ es\<rparr>"
      "case fst (?m w) of Inr x \<Rightarrow> marks es = ?todo | Inl e \<Rightarrow> (\<exists>rest. ?todo = marks es @ rest)"
    unfolding ok_def by blast
  from es(2) assms have m: "marks es = ?todo" by simp
  have "figure_sizes es = figure_sizes ?todo"
    using m figure_sizes_marks[of es] by simp
  then have f: "figure_sizes es = [if vertical then (8, 22) else (22, 8.5)]"
    by (simp add: shape_def saving_def closing_def figure_sizes_append figure_sizes_subplots
             split: option.splits sum.splits)
  have "subplot_codes es = subplot_codes ?todo"
    using m subplot_codes_marks[of es] by simp
  then have s: "subplot_codes es = (if vertical then [311, 312, 313] else [131, 132, 133])"
    by (simp add: shape_def saving_def closing_def subplot_codes_append
             split: option.splits sum.splits)
  have "events (snd (?m w)) = events w @ es" by (simp add: es(1))
  with f s show ?thesis by blast
qed












































text \<open>
  Claim C2. When \<^verbatim>\<open>len(xArray) != fieldArray.shape[1]\<close> or
  \<^verbatim>\<open>len(depthArray) != fieldArray.shape[0]\<close>, \<^verbatim>\<open>plot_vertical_section\<close> raises a
  ValueError and leaves the world as it was: no figure has been created, no file written,
  no library call made.
\<close>

theorem shape_mismatch_raises:
  assumes "length xArray \<noteq> shape1 fieldArray \<or> length depthArray \<noteq> shape0 fieldArray"
  shows "plot_vertical_section env xArray depthArray fieldArray colormapName colorbarLevels
           contourLevels colorbarLabel title xlabel ylabel fileout figsize dpi xLim yLim
           linewidths invertYAxis xArrayIsTime N maxXTicks calendar w
         = (Inl (ValueError
                   (if length xArray \<noteq> shape1 fieldArray
                    then ''size mismatch between xArray and fieldArray''
                    else ''size mismatch between depthArray and fieldArray'')), w)"
  using assms by (auto simp: plot_vertical_section_def raise_def)

theorem shape_mismatch_raises_witness:
  "plot_vertical_section example_env [0, 1] [0] example_field
     (example_cmap ''RdBu'')
     None None None None None None (Some ''moc.png'') (10, 4) None None None 2 True False None
     20 ''gregorian'' (example_world [] None)
   = (Inl (ValueError ''size mismatch between xArray and fieldArray''), example_world [] None)"
  using shape_mismatch_raises[of "[0, 1]" example_field "[0]" example_env
      "example_cmap ''RdBu''"
      None None None None None None "Some ''moc.png''" "(10, 4)" None None None 2 True False
      None 20 "''gregorian''" "example_world [] None"]
  by (simp add: example_field_def)

text \<open>
  Claim C3 says that \<^verbatim>\<open>timeseries_analysis_plot\<close> completes for a list of data sets
  whose entries are all \<open>None\<close>, and \<^verbatim>\<open>plot_1D\<close> for every well-formed list. The
  code skips the \<open>None\<close> entries and then takes \<^verbatim>\<open>np.amin\<close> of the empty \<^verbatim>\<open>minDays\<close>;
  \<^verbatim>\<open>plot_1D\<close> reads \<^verbatim>\<open>dsIndex\<close> after a loop that an empty list never enters.
\<close>

theorem all_none_raises:
  "fst (timeseries_analysis_plot example_env [None] 1 None None None (Some ''ts.png'') [] [] []
          ''gregorian'' None (15, 6) None 20 (example_world [] None))
   = Inl (Foreign (LibraryError
        ''zero-size array to reduction operation minimum which has no identity'')) \<and>
   fst (plot_1D [] [] [] [] [] [] None None None (Some ''plot_1D.png'') (10, 4) None None None
          False (example_world [] None))
   = Inl (UnboundLocalError ''dsIndex'')"
  by (simp add: timeseries_analysis_plot_def plot_1D_def timeseries_body_def bind_def ret_def
        raise_def emit_def outside_def lift_def of_foreign_def config_get_def config_getint_def
        ax_get_ylim_def plot_xtick_format_def example_world_def example_config_def
        example_env_def)

lemma map_result_Inr:
  assumes "\<And>x. x \<in> set xs \<Longrightarrow> f x = Inr (g x)"
  shows "map_result f xs = Inr (map g xs)"
  using assms by (induction xs) simp_all

lemma length_trim_cong: "length xs = length ys \<Longrightarrow> length (trim N xs) = length (trim N ys)"
  by (simp add: trim_def py_slice_def Let_def)

lemma halves: "int_half N + round_half N = N" if "0 \<le> N" for N :: int
  using that by (simp add: int_half_def round_half_def)

lemma length_trim:
  assumes "3 \<le> N" and "N - 1 \<le> int (length xs)"
  shows "length (trim N xs) + nat (N - 1) = length xs"
proof -
  define p where "p = nat (int_half N)"
  define q where "q = nat (round_half N - 1)"
  have h: "int_half N + round_half N = N" using assms(1) by (simp add: halves)
  have lo: "0 \<le> int_half N" using assms(1) by (simp add: int_half_def)
  have hi: "2 \<le> round_half N" using assms(1) by (simp add: round_half_def)
  have pq: "p + q = nat (N - 1)"
    unfolding p_def q_def using h lo hi by linarith
  have le: "p + q \<le> length xs"
    unfolding pq using assms(2) by linarith
  have a: "slice_bound (length xs) (int_half N) = p"
    unfolding p_def using lo le[unfolded p_def] by (simp add: slice_bound_def)
  have neg: "- (round_half N - 1) < 0" using hi by linarith
  have b: "slice_bound (length xs) (- (round_half N - 1)) = length xs - q"
    unfolding q_def slice_bound_def using neg le[unfolded q_def] hi by simp
  have "length (trim N xs) = length xs - q - p"
    unfolding trim_def py_slice_def Let_def a b using le by simp
  then show ?thesis using le pq by linarith
qed

lemma slices_of_field:
  assumes "0 \<le> N" and "wf_array2 fieldArray" and "length depthArray = shape0 fieldArray"
  shows "moving_average_slices N depthArray fieldArray =
           Inr (map (\<lambda>n. trim N (map (window_mean N (rows fieldArray ! n))
                                   [0..<length (rows fieldArray ! n)]))
                  [0..<length depthArray])"
  unfolding moving_average_slices_def
  using assms
  by (intro map_result_Inr) (simp add: py_index_def rolling_mean_def wf_array2_def)

text \<open>
  The moving-average step on a well-formed field that passes the shape check, for a
  window \<open>N > 1\<close>: it succeeds, and the cut \<^verbatim>\<open>xArray\<close> and every smoothed depth slice
  have the same length, which is the second dimension of the new field when there is a
  depth level at all. When \<open>N \<ge> 3\<close> and \<^verbatim>\<open>xArray\<close> has at least \<open>N - 1\<close> points,
  exactly \<open>N - 1\<close> points are removed.
\<close>

lemma moving_average_lengths:
  assumes "1 < N" and "wf_array2 fieldArray"
    and "length xArray = shape1 fieldArray" and "length depthArray = shape0 fieldArray"
  shows "\<exists>x f. moving_average N xArray depthArray fieldArray = Inr (x, f) \<and>
               list_all (\<lambda>s. length s = length x) (rows f) \<and>
               shape0 f = length depthArray \<and>
               (depthArray \<noteq> [] \<longrightarrow> shape1 f = length x) \<and>
               (3 \<le> N \<and> N - 1 \<le> int (length xArray) \<longrightarrow>
                  length x + nat (N - 1) = length xArray)"
proof -
  let ?slices = "map (\<lambda>n. trim N (map (window_mean N (rows fieldArray ! n))
                                   [0..<length (rows fieldArray ! n)]))
                  [0..<length depthArray]"
  have s: "moving_average_slices N depthArray fieldArray = Inr ?slices"
    using assms by (intro slices_of_field) simp_all
  have m: "moving_average N xArray depthArray fieldArray
             = Inr (trim N xArray, data_array ?slices)"
    by (simp add: moving_average_def s)
  have row: "length (rows fieldArray ! n) = length xArray" if "n < length depthArray" for n
    using that assms(2,3,4) by (simp add: wf_array2_def list_all_length)
  have each: "length (trim N (map (window_mean N (rows fieldArray ! n))
                               [0..<length (rows fieldArray ! n)])) = length (trim N xArray)"
    if "n < length depthArray" for n
    by (rule length_trim_cong) (simp add: row[OF that])
  have all: "list_all (\<lambda>s. length s = length (trim N xArray)) ?slices"
    unfolding list_all_length using each by simp
  have s1: "shape1 (data_array ?slices) = length (trim N xArray)" if "depthArray \<noteq> []"
  proof -
    from that have pos: "0 < length depthArray" by simp
    then have u: "[0..<length depthArray] = 0 # [Suc 0..<length depthArray]"
      by (rule upt_conv_Cons)
    show ?thesis
      unfolding data_array_def u using each[OF pos] by simp
  qed
  show ?thesis
  proof (intro exI[of _ "trim N xArray"] exI[of _ "data_array ?slices"] conjI impI)
    show "moving_average N xArray depthArray fieldArray
            = Inr (trim N xArray, data_array ?slices)"
      by (rule m)
    show "list_all (\<lambda>s. length s = length (trim N xArray)) (rows (data_array ?slices))"
      using all by (simp add: data_array_def)
    show "shape0 (data_array ?slices) = length depthArray"
      by (simp add: data_array_def)
    show "shape1 (data_array ?slices) = length (trim N xArray)" if "depthArray \<noteq> []"
      using that by (rule s1)
    show "length (trim N xArray) + nat (N - 1) = length xArray"
      if "3 \<le> N \<and> N - 1 \<le> int (length xArray)"
      using that by (simp add: length_trim)
  qed
qed

lemma moving_average_window_three:
  "\<exists>x f. moving_average 3 [0, 1, 2] [5] example_field = Inr (x, f) \<and>
         list_all (\<lambda>s. length s = length x) (rows f) \<and> shape0 f = 1 \<and> shape1 f = length x \<and>
         length x + 2 = (3::nat)"
  using moving_average_lengths[of 3 example_field "[0, 1, 2]" "[5]"]
  by (simp add: example_field_def wf_array2_def)

lemma moving_average_short:
  "moving_average 4 [0, 1] [5] \<lparr>shape0 = 1, shape1 = 2, rows = [[Some 1, Some 2]]\<rparr>
     = Inr ([], \<lparr>shape0 = 1, shape1 = 0, rows = [[]]\<rparr>)"
  by (simp add: moving_average_def moving_average_slices_def py_index_def rolling_mean_def
        trim_def py_slice_def slice_bound_def int_half_def round_half_def data_array_def)

text \<open>
  Claim C9 says that for every \<open>N > 1\<close> the moving-average step removes exactly \<open>N - 1\<close>
  points. For \<open>N = 2\<close> the centred mean has one NaN, its first entry, so one point is to
  go. The cut is \<^verbatim>\<open>[int(N/2.0):-int(round(N/2.0)-1)]\<close>, which for \<open>N = 2\<close> is \<^verbatim>\<open>[1:-0]\<close>,
  and Python reads \<^verbatim>\<open>-0\<close> as the stop bound 0: the cut removes every point, of
  \<^verbatim>\<open>xArray\<close> and of each depth slice, whatever their length.
\<close>

theorem window_two_removes_all:
  "trim 2 xs = [] \<and>
   rolling_mean 2 [Some 1, Some 2, Some 4] = Inr [None, Some (3 / 2), Some 3] \<and>
   moving_average 2 [0, 1, 2] [5] example_field
     = Inr ([], \<lparr>shape0 = 1, shape1 = 0, rows = [[]]\<rparr>)"
  by (simp add: moving_average_def moving_average_slices_def py_index_def rolling_mean_def
        window_mean_def trim_def py_slice_def slice_bound_def int_half_def round_half_def
        data_array_def example_field_def upt_conv_Cons)

lemma py_slice_inner: "py_slice 1 (- 1) xs = butlast (tl xs)"
proof (cases xs)
  case Nil
  then show ?thesis by (simp add: py_slice_def slice_bound_def)
next
  case (Cons x rest)
  have "take (length rest - Suc 0) rest = butlast rest"
    by (simp add: butlast_conv_take)
  then show ?thesis
    unfolding Cons by (simp add: py_slice_def slice_bound_def)
qed

lemma py_index_first: "xs \<noteq> [] \<Longrightarrow> py_index xs 0 = Inr (hd xs)"
  by (cases xs) (simp_all add: py_index_def)

lemma py_index_last:
  assumes "xs \<noteq> []"
  shows "py_index xs (- 1) = Inr (last xs)"
proof -
  from assms have pos: "1 \<le> length xs" by (cases xs) simp_all
  then have "nat (int (length xs) + - 1) = length xs - 1" by linarith
  then show ?thesis
    using pos assms by (simp add: py_index_def last_conv_nth)
qed

lemma bind_config_get:
  "cfg_get (config w) sec opt = Inr v \<Longrightarrow> bind (config_get sec opt) f w = f v w"
  by (simp add: bind_def config_get_def of_foreign_def)

lemma bind_config_getExpression:
  "cfg_getExpression (config w) sec opt = Inr v \<Longrightarrow>
   bind (config_getExpression sec opt) f w = f v w"
  by (simp add: bind_def config_getExpression_def of_foreign_def)

lemma bind_outside: "r = Inr v \<Longrightarrow> bind (outside r) f w = f v w"
  by (simp add: bind_def outside_def lift_def of_foreign_def)

lemma bind_lift: "r = Inr v \<Longrightarrow> bind (lift r) f w = f v w"
  by (simp add: bind_def lift_def)

lemma bind_ret: "bind (ret v) f w = f v w"
  by (simp add: bind_def ret_def)

lemma levels_present:
  "cfg_getExpression (config w) sec opt = Inr levels \<Longrightarrow>
   bind (catch (bind (config_getExpression sec opt) (\<lambda>levels. ret (Some levels)))
           (\<lambda>e. case e of Foreign (NoOptionError s t) \<Rightarrow> ret None | _ \<Rightarrow> raise e)) f w
   = f (Some levels) w"
  by (simp add: bind_def catch_def config_getExpression_def of_foreign_def ret_def)

lemma levels_absent:
  "cfg_getExpression (config w) sec opt = Inl (NoOptionError a b) \<Longrightarrow>
   bind (catch (bind (config_getExpression sec opt) (\<lambda>levels. ret (Some levels)))
           (\<lambda>e. case e of Foreign (NoOptionError s t) \<Rightarrow> ret None | _ \<Rightarrow> raise e)) f w
   = f None w"
  by (simp add: bind_def catch_def config_getExpression_def of_foreign_def ret_def)

text \<open>
  Claim C8, as amended. Let the colormap name be in the registry and the colormap indices
  be given. When option \<^verbatim>\<open>colorbarLevels\<close> is present and neither it nor the indices are
  empty,
  \<^verbatim>\<open>setup_colormap\<close> raises the ValueError unless there is one index more or one index
  less than there are levels; with one more, the first and the last index give the under
  and over colours and are dropped from the listed colours; in both accepted cases the
  new colormap lists one colour less than there are levels. When the option is absent,
  the registry colormap is returned as it is, with \<open>None\<close>.
\<close>

theorem setup_colormap_levels:
  assumes "cfg_get (config w) configSectionName (''colormapName'' @ suffix) = Inr name"
    and "get_cmap env name = Inr cmap"
    and "cfg_getExpression (config w) configSectionName (''colormapIndices'' @ suffix)
           = Inr indices"
  shows "(cfg_getExpression (config w) configSectionName (''colorbarLevels'' @ suffix)
            = Inr levels \<and> indices \<noteq> [] \<and> levels \<noteq> [] \<longrightarrow>
          (\<exists>kept.
             kept = (if length indices = length levels + 1 then butlast (tl indices)
                     else indices) \<and>
             setup_colormap env configSectionName suffix w =
               (if length indices = length levels + 1 \<or> length indices + 1 = length levels
                then Inr (\<lparr>cm_name = ''colormapName'' @ suffix,
                           cm_colors = map (cm_call cmap) kept,
                           cm_under = Some (cm_call cmap (hd indices)),
                           cm_over = Some (cm_call cmap (last indices))\<rparr>, Some levels)
                else Inl (ValueError ''length mismatch between indices and colorbarLevels''),
                w) \<and>
             (length indices = length levels + 1 \<or> length indices + 1 = length levels \<longrightarrow>
                length (map (cm_call cmap) kept) + 1 = length levels))) \<and>
         (cfg_getExpression (config w) configSectionName (''colorbarLevels'' @ suffix)
            = Inl (NoOptionError a b) \<longrightarrow>
          setup_colormap env configSectionName suffix w = (Inr (cmap, None), w))"
proof (intro conjI impI)
  assume "cfg_getExpression (config w) configSectionName (''colorbarLevels'' @ suffix)
            = Inl (NoOptionError a b)"
  then have "bind (catch (bind (config_getExpression configSectionName
                                  (''colorbarLevels'' @ suffix)) (\<lambda>levels. ret (Some levels)))
           (\<lambda>e. case e of Foreign (NoOptionError s t) \<Rightarrow> ret None | _ \<Rightarrow> raise e)) f w
         = f None w" for f :: "int list option \<Rightarrow> (colormap \<times> int list option) plt"
    by (rule levels_absent)
  then show "setup_colormap env configSectionName suffix w = (Inr (cmap, None), w)"
    unfolding setup_colormap_def
    by (simp only: bind_config_get[OF assms(1)] bind_outside[OF assms(2)]
          bind_config_getExpression[OF assms(3)] option.case)
       (simp add: ret_def)
next
  assume h: "cfg_getExpression (config w) configSectionName (''colorbarLevels'' @ suffix)
               = Inr levels \<and> indices \<noteq> [] \<and> levels \<noteq> []"
  then have l: "cfg_getExpression (config w) configSectionName (''colorbarLevels'' @ suffix)
                  = Inr levels"
    and ne: "indices \<noteq> []" and nl: "levels \<noteq> []" by simp_all
  let ?kept = "if length indices = length levels + 1 then butlast (tl indices) else indices"
  have run: "setup_colormap env configSectionName suffix w =
       (if length indices = length levels + 1 \<or> length indices + 1 = length levels
        then Inr (\<lparr>cm_name = ''colormapName'' @ suffix,
                   cm_colors = map (cm_call cmap) ?kept,
                   cm_under = Some (cm_call cmap (hd indices)),
                   cm_over = Some (cm_call cmap (last indices))\<rparr>, Some levels)
        else Inl (ValueError ''length mismatch between indices and colorbarLevels''), w)"
    unfolding setup_colormap_def
    apply (simp only: bind_config_get[OF assms(1)] bind_outside[OF assms(2)]
          bind_config_getExpression[OF assms(3)] levels_present[OF l] option.case
          bind_lift[OF py_index_first[OF ne]] bind_lift[OF py_index_last[OF ne]]
          bind_ret py_slice_inner)
    apply (auto simp: bind_def ret_def raise_def)
    done
  have len: "length (map (cm_call cmap) ?kept) + 1 = length levels"
    if "length indices = length levels + 1 \<or> length indices + 1 = length levels"
    using that nl by (cases levels) auto
  from run len show "\<exists>kept.
             kept = (if length indices = length levels + 1 then butlast (tl indices)
                     else indices) \<and>
             setup_colormap env configSectionName suffix w =
               (if length indices = length levels + 1 \<or> length indices + 1 = length levels
                then Inr (\<lparr>cm_name = ''colormapName'' @ suffix,
                           cm_colors = map (cm_call cmap) kept,
                           cm_under = Some (cm_call cmap (hd indices)),
                           cm_over = Some (cm_call cmap (last indices))\<rparr>, Some levels)
                else Inl (ValueError ''length mismatch between indices and colorbarLevels''),
                w) \<and>
             (length indices = length levels + 1 \<or> length indices + 1 = length levels \<longrightarrow>
                length (map (cm_call cmap) kept) + 1 = length levels)"
    by (intro exI[of _ ?kept]) simp
qed

theorem setup_colormap_levels_witness:
  "setup_colormap example_env ''colors'' [] (example_world [0, 1, 2, 3] (Some [10, 20, 30]))
     = (Inr (\<lparr>cm_name = ''colormapName'',
               cm_colors = map (cm_call (example_cmap ''RdBu'')) [1, 2],
               cm_under = Some (cm_call (example_cmap ''RdBu'') 0),
               cm_over = Some (cm_call (example_cmap ''RdBu'') 3)\<rparr>, Some [10, 20, 30]),
        example_world [0, 1, 2, 3] (Some [10, 20, 30])) \<and>
   setup_colormap example_env ''colors'' [] (example_world [0, 1] None)
     = (Inr (example_cmap ''RdBu'', None), example_world [0, 1] None)"
  using
    setup_colormap_levels[where w = "example_world [0, 1, 2, 3] (Some [10, 20, 30])"
      and configSectionName = "''colors''" and suffix = "[]" and name = "''RdBu''"
      and env = example_env and cmap = "example_cmap ''RdBu''" and indices = "[0, 1, 2, 3]"
      and levels = "[10, 20, 30]"]
    setup_colormap_levels[where w = "example_world [0, 1] None"
      and configSectionName = "''colors''" and suffix = "[]" and name = "''RdBu''"
      and env = example_env and cmap = "example_cmap ''RdBu''" and indices = "[0, 1]"
      and a = "''colorbarLevels''" and b = "''colors''"]
  by (simp add: example_world_def example_config_def example_env_def)

theorem setup_colormap_empty_indices_counterexample:
  "setup_colormap example_env ''colors'' [] (example_world [] (Some [10, 20, 30]))
     = (Inl IndexError, example_world [] (Some [10, 20, 30]))"
  by (simp add: setup_colormap_def bind_def catch_def ret_def outside_def lift_def
        of_foreign_def config_get_def config_getExpression_def py_index_def
        example_world_def example_config_def example_env_def)


lemma keeps_emit: "keeps_config (emit ev)"
  by (simp add: keeps_config_def emit_def)

lemma keeps_quiet: "quiet m \<Longrightarrow> keeps_config m"
  by (simp add: keeps_config_def quiet_config)

lemma agree_refl: "agree c m m"
  by (simp add: agree_def)

lemma agree_bind:
  assumes k: "keeps_config m" and m: "agree c m n" and f: "\<And>x. agree c (f x) (g x)"
  shows "agree c (bind m f) (bind n g)"
  unfolding agree_def
proof (intro allI impI)
  fix w :: world assume c: "config w = c"
  from m c have e: "m w = n w" by (simp add: agree_def)
  show "bind m f w = bind n g w"
  proof (cases "fst (m w)")
    case (Inl err)
    then show ?thesis using e by (simp add: bind_Inl)
  next
    case (Inr x)
    have "config (snd (m w)) = c" using k c by (simp add: keeps_config_def)
    then have "f x (snd (m w)) = g x (snd (m w))" using f[of x] by (simp add: agree_def)
    then show ?thesis using Inr e by (simp add: bind_Inr)
  qed
qed

lemma agree_when_some: "(\<And>x. agree c (f x) (g x)) \<Longrightarrow> agree c (when_some v f) (when_some v g)"
  by (cases v) (simp_all add: when_some_def agree_refl)

lemma agree_case_prod:
  "(\<And>a b. agree c (f a b) (g a b)) \<Longrightarrow>
   agree c (case p of (a, b) \<Rightarrow> f a b) (case p of (a, b) \<Rightarrow> g a b)"
  by (cases p) simp

lemma agree_if:
  "agree c m1 n1 \<Longrightarrow> agree c m2 n2 \<Longrightarrow> agree c (if b then m1 else m2) (if b then n1 else n2)"
  by simp

lemma agree_dpi:
  "cfg_getint c ''plot'' ''dpi'' = Inr d \<Longrightarrow> agree c (config_getint ''plot'' ''dpi'') (ret d)"
  by (simp add: agree_def config_getint_def ret_def of_foreign_def)

lemma agree_titleFontSize:
  "cfg_get c ''plot'' ''titleFontSize'' = Inr s \<Longrightarrow>
   agree c (bind (config_get ''plot'' ''titleFontSize'') (\<lambda>s. ret (SizeStr s)))
     (ret (SizeStr s))"
  by (simp add: agree_def bind_def config_get_def ret_def of_foreign_def)

lemmas agree_intros =
  agree_refl agree_bind agree_when_some agree_case_prod agree_if keeps_emit keeps_quiet

lemma dpi_fallback:
  assumes "cfg_getint c ''plot'' ''dpi'' = Inr d"
  shows "agree c (run env (with_dpi None call)) (run env (with_dpi (Some d) call))"
proof (cases call)
  case TimeseriesAnalysisPlot
  then show ?thesis
    unfolding TimeseriesAnalysisPlot with_dpi.simps run.simps timeseries_analysis_plot_def
      option.case
    by (intro agree_dpi[OF assms] agree_intros quiet_all)
next
  case TimeseriesAnalysisPlotPolar
  then show ?thesis
    unfolding TimeseriesAnalysisPlotPolar with_dpi.simps run.simps
      timeseries_analysis_plot_polar_def option.case
    by (intro agree_dpi[OF assms] agree_intros quiet_all)
next
  case PlotPolarComparison
  then show ?thesis
    unfolding PlotPolarComparison with_dpi.simps run.simps plot_polar_comparison_def
      option.case
    by (intro agree_dpi[OF assms] agree_intros quiet_all)
next
  case PlotGlobalComparison
  then show ?thesis
    unfolding PlotGlobalComparison with_dpi.simps run.simps plot_global_comparison_def
      option.case
    by (intro agree_dpi[OF assms] agree_intros quiet_all)
next
  case Plot1D
  then show ?thesis
    unfolding Plot1D with_dpi.simps run.simps plot_1D_def option.case
    by (intro agree_dpi[OF assms] agree_intros quiet_all)
next
  case PlotVerticalSection
  then show ?thesis
    unfolding PlotVerticalSection with_dpi.simps run.simps plot_vertical_section_def
      option.case
    by (intro agree_dpi[OF assms] agree_intros quiet_all)
qed

lemma titleFontSize_fallback:
  assumes "cfg_get c ''plot'' ''titleFontSize'' = Inr s"
  shows "agree c (run env (with_titleFontSize None call))
           (run env (with_titleFontSize (Some (SizeStr s)) call))"
proof (cases call)
  case TimeseriesAnalysisPlot
  then show ?thesis
    unfolding TimeseriesAnalysisPlot with_titleFontSize.simps run.simps
      timeseries_analysis_plot_def option.case
    by (intro agree_titleFontSize[OF assms] agree_intros quiet_all)
next
  case TimeseriesAnalysisPlotPolar
  then show ?thesis
    unfolding TimeseriesAnalysisPlotPolar with_titleFontSize.simps run.simps
      timeseries_analysis_plot_polar_def option.case
    by (intro agree_titleFontSize[OF assms] agree_intros quiet_all)
next
  case PlotPolarComparison
  then show ?thesis
    unfolding PlotPolarComparison with_titleFontSize.simps run.simps
      plot_polar_comparison_def option.case
    by (intro agree_titleFontSize[OF assms] agree_intros quiet_all)
next
  case PlotGlobalComparison
  then show ?thesis
    unfolding PlotGlobalComparison with_titleFontSize.simps run.simps
      plot_global_comparison_def option.case
    by (intro agree_titleFontSize[OF assms] agree_intros quiet_all)
next
  case Plot1D
  then show ?thesis by (simp add: agree_refl)
next
  case PlotVerticalSection
  then show ?thesis by (simp add: agree_refl)
qed

lemmas example_simps =
  bind_def ret_def raise_def emit_def lift_def outside_def of_foreign_def when_some_def
  config_get_def config_getint_def config_getboolean_def py_index_def truthy_def
  example_world_def example_config_def example_env_def

lemma example_timeseries_returns:
  "fst (run example_env example_timeseries (example_world [] None)) = Inr ()"
  by (simp add: example_timeseries_def timeseries_analysis_plot_def timeseries_body_def
        plot_xtick_format_def rolling_mean_def ax_get_ylim_def example_series_def
        upto.simps example_simps)

lemma example_timeseries_polar_returns:
  "fst (run example_env example_timeseries_polar (example_world [] None)) = Inr ()"
  by (simp add: example_timeseries_polar_def timeseries_analysis_plot_polar_def
        timeseries_polar_body_def rolling_mean_def example_series_def upt_rec example_simps)

lemma example_polar_comparison_returns:
  "fst (run example_env example_polar_comparison (example_world [] None)) = Inr ()"
  by (simp add: example_polar_comparison_def plot_polar_comparison_def do_subplot_def
        example_simps)

lemma example_global_comparison_returns:
  "fst (run example_env example_global_comparison (example_world [] None)) = Inr ()"
  by (simp add: example_global_comparison_def plot_global_comparison_def global_panel_def
        example_simps)

lemma example_plot_1D_returns:
  "fst (run example_env example_plot_1D (example_world [] None)) = Inr ()"
  by (simp add: example_plot_1D_def plot_1D_def plot_1D_body_def example_simps)

lemma example_vertical_section_returns:
  "fst (run example_env example_vertical_section (example_world [] None)) = Inr ()"
  by (simp add: example_vertical_section_def plot_vertical_section_def moving_average_def
        moving_average_slices_def rolling_mean_def meshgrid_def example_field_def
        example_simps)




theorem polar_comparison_layout_witness:
  "\<exists>es. events (snd (plot_polar_comparison example_env example_grid example_grid example_grid
                       example_grid example_grid (example_cmap ''RdBu'') [0, 1]
                       (example_cmap ''RdBu'') [0, 1] (Some ''polar.png'')
                       (Some ''Ice concentration'') ''npstere'' 50 0 ''Model'' ''Observations''
                       ''Model-Observations'' ''units'' None None None False
                       (example_world [] None)))
          = events (example_world [] None) @ es \<and>
        figure_sizes es = [(22, 8.5)] \<and> subplot_codes es = [131, 132, 133]"
  using polar_comparison_layout[OF
      example_polar_comparison_returns[unfolded example_polar_comparison_def run.simps]]
  by simp

lemma dpis_append: "dpis (a @ b) = dpis a @ dpis b"
  by (induction a rule: dpis.induct) simp_all

lemma dpis_marks: "dpis (marks es) = dpis es"
  unfolding marks_def by (induction es rule: dpis.induct) simp_all

lemma dpis_subplots: "dpis (map Subplot ns) = []"
  by (induction ns) simp_all

lemma dpis_shape:
  "dpis (shape c figsize dpi ns fileout)
     = resolve_dpi c dpi # (case fileout of None \<Rightarrow> [] | Some f \<Rightarrow> [resolve_dpi c dpi])"
  by (simp add: shape_def saving_def closing_def dpis_append dpis_subplots
           split: option.splits sum.splits)

lemma dpis_expected:
  "cfg_getint c ''plot'' ''dpi'' = Inr d \<Longrightarrow>
   dpis (expected c (with_dpi None call))
     = d # (case fileout_of call of None \<Rightarrow> [] | Some f \<Rightarrow> [d])"
  by (cases call) (simp_all add: dpis_shape resolve_dpi_def split: option.splits)

lemma grows_quiet: "quiet m \<Longrightarrow> grows m"
  unfolding quiet_def grows_def by blast

lemma grows_emit: "grows (emit ev)"
  unfolding grows_def emit_def by (auto intro: exI[where x = "[ev]"])

lemma grows_bind:
  assumes m: "grows m" and f: "\<And>x. grows (f x)"
  shows "grows (bind m f)"
  unfolding grows_def
proof
  fix w
  from m obtain es where es: "snd (m w) = w\<lparr>events := events w @ es\<rparr>"
    unfolding grows_def by blast
  show "\<exists>es. snd (bind m f w) = w\<lparr>events := events w @ es\<rparr>"
  proof (cases "fst (m w)")
    case (Inl e)
    then have "bind m f w = (Inl e, snd (m w))" by (rule bind_Inl)
    with es show ?thesis by auto
  next
    case (Inr x)
    then have b: "bind m f w = f x (snd (m w))" by (rule bind_Inr)
    from f[of x] obtain es' where
      es': "snd (f x (snd (m w))) = (snd (m w))\<lparr>events := events (snd (m w)) @ es'\<rparr>"
      unfolding grows_def by blast
    have "snd (bind m f w) = w\<lparr>events := events w @ (es @ es')\<rparr>"
      using b es es' by simp
    then show ?thesis by blast
  qed
qed

lemma grows_if: "grows a \<Longrightarrow> grows b \<Longrightarrow> grows (if c then a else b)"
  by simp

lemma grows_case_option:
  "grows a \<Longrightarrow> (\<And>x. grows (f x)) \<Longrightarrow> grows (case v of None \<Rightarrow> a | Some x \<Rightarrow> f x)"
  by (cases v) simp_all

lemma grows_case_prod: "(\<And>a b. grows (f a b)) \<Longrightarrow> grows (case p of (a, b) \<Rightarrow> f a b)"
  by (cases p) simp

lemma grows_when_some: "(\<And>x. grows (f x)) \<Longrightarrow> grows (when_some v f)"
  unfolding when_some_def by (cases v) (simp_all add: grows_quiet quiet_ret)

lemma grows_for_each: "(\<And>i s. grows (body i s)) \<Longrightarrow> grows (for_each xs body s)"
  by (induction xs arbitrary: s) (simp_all add: grows_quiet quiet_ret grows_bind)

lemmas grows_all =
  grows_emit grows_bind grows_if grows_case_option grows_case_prod grows_when_some
  grows_for_each
  quiet_ret[THEN grows_quiet] quiet_raise[THEN grows_quiet] quiet_lift[THEN grows_quiet]
  quiet_outside[THEN grows_quiet] quiet_config_get[THEN grows_quiet]
  quiet_config_getint[THEN grows_quiet] quiet_config_getboolean[THEN grows_quiet]
  quiet_config_getExpression[THEN grows_quiet] quiet_ax_get_ylim[THEN grows_quiet]
  quiet_ax_get_xlim[THEN grows_quiet] quiet_plot_xtick_format[THEN grows_quiet]
  quiet_timeseries_body[THEN grows_quiet] quiet_timeseries_polar_body[THEN grows_quiet]
  quiet_do_subplot[THEN grows_quiet] quiet_global_panel[THEN grows_quiet]
  quiet_plot_1D_body[THEN grows_quiet]

lemma emits_value:
  assumes m: "grows m"
    and v: "\<And>(w::world) x. config w = c \<Longrightarrow> fst (m w) = Inr x \<Longrightarrow> x = v"
    and f: "emits c Q (f v)"
  shows "emits c Q (bind m f)"
  unfolding emits_def
proof (intro allI impI)
  fix w :: world and y
  assume c: "config w = c" and r: "fst (bind m f w) = Inr y"
  from m obtain es where es: "snd (m w) = w\<lparr>events := events w @ es\<rparr>"
    unfolding grows_def by blast
  show "\<exists>es. snd (bind m f w) = w\<lparr>events := events w @ es\<rparr> \<and> (\<exists>e \<in> set es. Q e)"
  proof (cases "fst (m w)")
    case (Inl e)
    then have "bind m f w = (Inl e, snd (m w))" by (rule bind_Inl)
    with r show ?thesis by simp
  next
    case (Inr x)
    with v[OF c] have x: "x = v" by simp
    from Inr have b: "bind m f w = f v (snd (m w))" unfolding x by (rule bind_Inr)
    have c': "config (snd (m w)) = c" using es c by simp
    from f c' r[unfolded b] obtain es' e where
      es': "snd (f v (snd (m w))) = (snd (m w))\<lparr>events := events (snd (m w)) @ es'\<rparr>"
        "e \<in> set es'" "Q e"
      unfolding emits_def by blast
    have "snd (bind m f w) = w\<lparr>events := events w @ (es @ es')\<rparr>"
      using b es es' by simp
    moreover have "e \<in> set (es @ es')" using es'(2) by simp
    ultimately show ?thesis using es'(3) by blast
  qed
qed

lemma emits_skip:
  assumes m: "grows m" and f: "\<And>x. emits c Q (f x)"
  shows "emits c Q (bind m f)"
  unfolding emits_def
proof (intro allI impI)
  fix w :: world and y
  assume c: "config w = c" and r: "fst (bind m f w) = Inr y"
  from m obtain es where es: "snd (m w) = w\<lparr>events := events w @ es\<rparr>"
    unfolding grows_def by blast
  show "\<exists>es. snd (bind m f w) = w\<lparr>events := events w @ es\<rparr> \<and> (\<exists>e \<in> set es. Q e)"
  proof (cases "fst (m w)")
    case (Inl e)
    then have "bind m f w = (Inl e, snd (m w))" by (rule bind_Inl)
    with r show ?thesis by simp
  next
    case (Inr x)
    then have b: "bind m f w = f x (snd (m w))" by (rule bind_Inr)
    have c': "config (snd (m w)) = c" using es c by simp
    from f[of x] c' r[unfolded b] obtain es' e where
      es': "snd (f x (snd (m w))) = (snd (m w))\<lparr>events := events (snd (m w)) @ es'\<rparr>"
        "e \<in> set es'" "Q e"
      unfolding emits_def by blast
    have "snd (bind m f w) = w\<lparr>events := events w @ (es @ es')\<rparr>"
      using b es es' by simp
    moreover have "e \<in> set (es @ es')" using es'(2) by simp
    ultimately show ?thesis using es'(3) by blast
  qed
qed

lemma emits_here:
  assumes m: "emits c Q m" and f: "\<And>x. grows (f x)"
  shows "emits c Q (bind m f)"
  unfolding emits_def
proof (intro allI impI)
  fix w :: world and y
  assume c: "config w = c" and r: "fst (bind m f w) = Inr y"
  show "\<exists>es. snd (bind m f w) = w\<lparr>events := events w @ es\<rparr> \<and> (\<exists>e \<in> set es. Q e)"
  proof (cases "fst (m w)")
    case (Inl e)
    then have "bind m f w = (Inl e, snd (m w))" by (rule bind_Inl)
    with r show ?thesis by simp
  next
    case (Inr x)
    then have b: "bind m f w = f x (snd (m w))" by (rule bind_Inr)
    from m c Inr obtain es e where
      es: "snd (m w) = w\<lparr>events := events w @ es\<rparr>" "e \<in> set es" "Q e"
      unfolding emits_def by blast
    from f[of x] obtain es' where
      es': "snd (f x (snd (m w))) = (snd (m w))\<lparr>events := events (snd (m w)) @ es'\<rparr>"
      unfolding grows_def by blast
    have "snd (bind m f w) = w\<lparr>events := events w @ (es @ es')\<rparr>"
      using b es es' by simp
    moreover have "e \<in> set (es @ es')" using es(2) by simp
    ultimately show ?thesis using es(3) by blast
  qed
qed

lemma emits_emit: "Q ev \<Longrightarrow> emits c Q (emit ev)"
  unfolding emits_def emit_def by (auto intro: exI[where x = "[ev]"])

lemma emits_title_bind:
  assumes "emits c Q (f t)" and "\<And>x. grows (k x)"
  shows "emits c Q (bind (when_some (Some t) f) k)"
  by (rule emits_here) (simp_all add: when_some_def assms)

lemma emits_ret_bind:
  assumes "emits c Q (f v)"
  shows "emits c Q (bind (ret v) f)"
proof (rule emits_value[where v = v])
  show "grows (ret v)" by (rule grows_quiet) (rule quiet_ret)
  show "emits c Q (f v)" by fact
  fix w :: world and x
  assume "fst (ret v w) = Inr x"
  then show "x = v" by (simp add: ret_def)
qed

lemma emits_size_bind:
  assumes "cfg_get c ''plot'' ''titleFontSize'' = Inr s" and "emits c Q (f (SizeStr s))"
  shows "emits c Q
           (bind (bind (config_get ''plot'' ''titleFontSize'') (\<lambda>s. ret (SizeStr s))) f)"
proof (rule emits_value[where v = "SizeStr s"])
  show "grows (bind (config_get ''plot'' ''titleFontSize'') (\<lambda>s. ret (SizeStr s)))"
    by (intro grows_all)
  show "emits c Q (f (SizeStr s))" by fact
  fix w :: world and x
  assume "config w = c"
    and "fst (bind (config_get ''plot'' ''titleFontSize'') (\<lambda>s. ret (SizeStr s)) w) = Inr x"
  then show "x = SizeStr s"
    using assms(1) by (simp add: bind_def config_get_def ret_def of_foreign_def)
qed

lemma emits_read_bind:
  assumes "cfg_get c ''plot'' ''titleFontSize'' = Inr s" and "emits c Q (f s)"
  shows "emits c Q (bind (config_get ''plot'' ''titleFontSize'') f)"
proof (rule emits_value[where v = s])
  show "grows (config_get ''plot'' ''titleFontSize'')" by (intro grows_all)
  show "emits c Q (f s)" by fact
  fix w :: world and x
  assume "config w = c" and "fst (config_get ''plot'' ''titleFontSize'' w) = Inr x"
  then show "x = s"
    using assms(1) by (simp add: config_get_def of_foreign_def)
qed

lemma emits_case_prod:
  "(\<And>a b. emits c Q (f a b)) \<Longrightarrow> emits c Q (case p of (a, b) \<Rightarrow> f a b)"
  by (cases p) simp

lemma emits_pair: "emits c Q (g a b) \<Longrightarrow> emits c Q (case (a, b) of (x, y) \<Rightarrow> g x y)"
  by simp

lemma emits_never: "emits c Q (raise e)"
  by (simp add: emits_def raise_def)

lemma emits_if:
  "(b \<Longrightarrow> emits c Q x) \<Longrightarrow> (\<not> b \<Longrightarrow> emits c Q y) \<Longrightarrow> emits c Q (if b then x else y)"
  by simp

lemma title_font_title: "title_font (Call n [AStr t, AFont fo]) = Some (t, font_size fo)"
  by (simp add: title_font_def)

lemma emits_timeseries_analysis_plot:
  assumes "cfg_get c ''plot'' ''titleFontSize'' = Inr s"
  shows "emits c (\<lambda>e. title_font e = Some (t, SizeStr s))
     (timeseries_analysis_plot env dsvalues N (Some t) xlabel ylabel fileout lineStyles
        lineWidths legendText calendar None figsize dpi maxXTicks)"
  unfolding timeseries_analysis_plot_def option.case
  by (rule emits_title_bind | (rule emits_emit, simp add: title_font_title)
      | rule emits_size_bind[OF assms] | rule emits_ret_bind | rule emits_case_prod
      | rule emits_pair | (rule emits_skip, (intro grows_all)[1]) | (intro grows_all)[1])+

lemma emits_timeseries_analysis_plot_polar:
  assumes "cfg_get c ''plot'' ''titleFontSize'' = Inr s"
  shows "emits c (\<lambda>e. title_font e = Some (t, SizeStr s))
     (timeseries_analysis_plot_polar env dsvalues N (Some t) fileout lineStyles lineWidths
        legendText None figsize dpi)"
  unfolding timeseries_analysis_plot_polar_def option.case
  by (rule emits_title_bind | (rule emits_emit, simp add: title_font_title)
      | rule emits_size_bind[OF assms] | rule emits_read_bind[OF assms] | rule emits_ret_bind
      | rule emits_case_prod | rule emits_pair | rule emits_if | rule emits_never
      | (rule emits_skip, (intro grows_all)[1]) | (intro grows_all)[1])+

lemma emits_plot_polar_comparison:
  assumes "cfg_get c ''plot'' ''titleFontSize'' = Inr s"
  shows "emits c (\<lambda>e. title_font e = Some (t, SizeStr s))
     (plot_polar_comparison env Lons Lats modelArray obsArray diffArray cmapModelObs
        clevsModelObs cmapDiff clevsDiff fileout (Some t) plotProjection latmin lon0
        modelTitle obsTitle diffTitle cbarlabel None figsize dpi vertical)"
  unfolding plot_polar_comparison_def option.case
  by (rule emits_title_bind | (rule emits_emit, simp add: title_font_title)
      | rule emits_size_bind[OF assms] | rule emits_read_bind[OF assms] | rule emits_ret_bind
      | rule emits_case_prod | rule emits_pair | rule emits_if | rule emits_never
      | (rule emits_skip, (intro grows_all)[1]) | (intro grows_all)[1])+

lemma emits_plot_global_comparison:
  assumes "cfg_get c ''plot'' ''titleFontSize'' = Inr s"
  shows "emits c (\<lambda>e. title_font e = Some (t, SizeStr s))
     (plot_global_comparison env Lons Lats modelArray obsArray diffArray cmapModelObs
        clevsModelObs cmapDiff clevsDiff fileout (Some t) modelTitle obsTitle diffTitle
        cbarlabel None figsize dpi)"
  unfolding plot_global_comparison_def option.case
  by (rule emits_title_bind | (rule emits_emit, simp add: title_font_title)
      | rule emits_size_bind[OF assms] | rule emits_read_bind[OF assms] | rule emits_ret_bind
      | rule emits_case_prod | rule emits_pair | rule emits_if | rule emits_never
      | (rule emits_skip, (intro grows_all)[1]) | (intro grows_all)[1])+

lemma emits_plot_1D:
  assumes "cfg_get c ''plot'' ''titleFontSize'' = Inr s"
  shows "emits c (\<lambda>e. title_font e = Some (t, SizeStr s))
     (plot_1D xArrays fieldArrays errArrays lineColors lineWidths legendText (Some t) xlabel
        ylabel fileout figsize dpi xLim yLim invertYAxis)"
  unfolding plot_1D_def
  by (rule emits_title_bind | (rule emits_emit, simp add: title_font_title)
      | rule emits_size_bind[OF assms] | rule emits_read_bind[OF assms] | rule emits_ret_bind
      | rule emits_case_prod | rule emits_pair | rule emits_if | rule emits_never
      | (rule emits_skip, (intro grows_all)[1]) | (intro grows_all)[1])+

lemma emits_plot_vertical_section:
  assumes "cfg_get c ''plot'' ''titleFontSize'' = Inr s"
  shows "emits c (\<lambda>e. title_font e = Some (t, SizeStr s))
     (plot_vertical_section env xArray depthArray fieldArray colormapName colorbarLevels
        contourLevels colorbarLabel (Some t) xlabel ylabel fileout figsize dpi xLim yLim
        linewidths invertYAxis xArrayIsTime N maxXTicks calendar)"
  unfolding plot_vertical_section_def
  by (rule emits_title_bind | (rule emits_emit, simp add: title_font_title)
      | rule emits_size_bind[OF assms] | rule emits_read_bind[OF assms] | rule emits_ret_bind
      | rule emits_case_prod | rule emits_pair | rule emits_if | rule emits_never
      | (rule emits_skip, (intro grows_all)[1]) | (intro grows_all)[1])+

lemma emits_run:
  assumes "cfg_get c ''plot'' ''titleFontSize'' = Inr s" and "title_of call = Some t"
  shows "emits c (\<lambda>e. title_font e = Some (t, SizeStr s))
           (run env (with_titleFontSize None call))"
  using assms(2)
  by (cases call)
     (simp_all add: emits_timeseries_analysis_plot[OF assms(1)]
        emits_timeseries_analysis_plot_polar[OF assms(1)]
        emits_plot_polar_comparison[OF assms(1)] emits_plot_global_comparison[OF assms(1)]
        emits_plot_1D[OF assms(1)] emits_plot_vertical_section[OF assms(1)])

lemma title_fonts_member:
  "e \<in> set es \<Longrightarrow> title_font e = Some p \<Longrightarrow> p \<in> set (title_fonts es)"
  by (force simp: title_fonts_def List.map_filter_def)

text \<open>
  Claim C4. With option \<^verbatim>\<open>dpi\<close> of section \<^verbatim>\<open>[plot]\<close> holding the integer \<open>d\<close>, a call
  of any of the six plotting routines with \<^verbatim>\<open>dpi=None\<close> does exactly what the same
  call with \<^verbatim>\<open>dpi=d\<close> does, and when it returns it has passed \<open>d\<close> to \<^verbatim>\<open>plt.figure\<close>
  and, if there is an output file, to \<^verbatim>\<open>plt.savefig\<close>. With option \<^verbatim>\<open>titleFontSize\<close>
  holding \<open>s\<close>, a call of any of the four routines that take \<^verbatim>\<open>titleFontSize\<close> with
  \<^verbatim>\<open>titleFontSize=None\<close> does exactly what the same call with \<^verbatim>\<open>titleFontSize=s\<close>
  does, and when a call that is given a title returns, it has drawn the title in a font of
  size \<open>s\<close>; \<^verbatim>\<open>plot_1D\<close> and \<^verbatim>\<open>plot_vertical_section\<close> have no such parameter and
  always read the option.
\<close>

theorem omitted_parameters_fall_back:
  assumes "cfg_getint (config w) ''plot'' ''dpi'' = Inr d"
    and "cfg_get (config w) ''plot'' ''titleFontSize'' = Inr s"
  shows "run env (with_dpi None call) w = run env (with_dpi (Some d) call) w \<and>
         run env (with_titleFontSize None call) w
           = run env (with_titleFontSize (Some (SizeStr s)) call) w \<and>
         (fst (run env (with_dpi None call) w) = Inr () \<longrightarrow>
            (\<exists>es. events (snd (run env (with_dpi None call) w)) = events w @ es \<and>
                  dpis es = d # (case fileout_of call of None \<Rightarrow> [] | Some f \<Rightarrow> [d]))) \<and>
         (fst (run env (with_titleFontSize None call) w) = Inr () \<and> title_of call = Some t \<longrightarrow>
            (\<exists>es. events (snd (run env (with_titleFontSize None call) w)) = events w @ es \<and>
                  (t, SizeStr s) \<in> set (title_fonts es)))"
proof (intro conjI impI)
  show "run env (with_dpi None call) w = run env (with_dpi (Some d) call) w"
    using dpi_fallback[OF assms(1), of env call] by (simp add: agree_def)
  show "run env (with_titleFontSize None call) w
          = run env (with_titleFontSize (Some (SizeStr s)) call) w"
    using titleFontSize_fallback[OF assms(2), of env call] by (simp add: agree_def)
next
  assume r: "fst (run env (with_dpi None call) w) = Inr ()"
  from run_events[of env "with_dpi None call" w] obtain es where
    es: "snd (run env (with_dpi None call) w) = w\<lparr>events := events w @ es\<rparr>"
    and ok: "\<And>x. fst (run env (with_dpi None call) w) = Inr x \<Longrightarrow>
               marks es = expected (config w) (with_dpi None call)"
    by blast
  have "dpis es = dpis (marks es)" by (simp add: dpis_marks)
  also have "\<dots> = dpis (expected (config w) (with_dpi None call))"
    using ok[OF r] by simp
  also have "\<dots> = d # (case fileout_of call of None \<Rightarrow> [] | Some f \<Rightarrow> [d])"
    by (rule dpis_expected[OF assms(1)])
  finally have "dpis es = d # (case fileout_of call of None \<Rightarrow> [] | Some f \<Rightarrow> [d])" .
  moreover have "events (snd (run env (with_dpi None call) w)) = events w @ es"
    by (simp add: es)
  ultimately show
    "\<exists>es. events (snd (run env (with_dpi None call) w)) = events w @ es \<and>
          dpis es = d # (case fileout_of call of None \<Rightarrow> [] | Some f \<Rightarrow> [d])"
    by blast
next
  assume "fst (run env (with_titleFontSize None call) w) = Inr () \<and> title_of call = Some t"
  then have r: "fst (run env (with_titleFontSize None call) w) = Inr ()"
    and t: "title_of call = Some t"
    by simp_all
  from emits_run[OF assms(2) t, of env] r obtain es e where
    es: "snd (run env (with_titleFontSize None call) w) = w\<lparr>events := events w @ es\<rparr>"
    and e: "e \<in> set es" "title_font e = Some (t, SizeStr s)"
    unfolding emits_def by blast
  have "(t, SizeStr s) \<in> set (title_fonts es)"
    using e by (rule title_fonts_member)
  moreover have "events (snd (run env (with_titleFontSize None call) w)) = events w @ es"
    by (simp add: es)
  ultimately show
    "\<exists>es. events (snd (run env (with_titleFontSize None call) w)) = events w @ es \<and>
          (t, SizeStr s) \<in> set (title_fonts es)"
    by blast
qed

lemma example_timeseries_args:
  "with_dpi None example_timeseries = example_timeseries \<and>
   with_titleFontSize None example_timeseries = example_timeseries \<and>
   title_of example_timeseries = Some ''SST'' \<and>
   fileout_of example_timeseries = Some ''sst.png''"
  by (simp add: example_timeseries_def)

lemma example_timeseries_polar_args:
  "with_dpi None example_timeseries_polar = example_timeseries_polar \<and>
   with_titleFontSize None example_timeseries_polar = example_timeseries_polar \<and>
   title_of example_timeseries_polar = Some ''Ice area'' \<and>
   fileout_of example_timeseries_polar = Some ''ice.png''"
  by (simp add: example_timeseries_polar_def)

lemma example_polar_comparison_args:
  "with_dpi None example_polar_comparison = example_polar_comparison \<and>
   with_titleFontSize None example_polar_comparison = example_polar_comparison \<and>
   title_of example_polar_comparison = Some ''Ice concentration'' \<and>
   fileout_of example_polar_comparison = Some ''polar.png''"
  by (simp add: example_polar_comparison_def)

lemma example_global_comparison_args:
  "with_dpi None example_global_comparison = example_global_comparison \<and>
   with_titleFontSize None example_global_comparison = example_global_comparison \<and>
   title_of example_global_comparison = Some ''SST'' \<and>
   fileout_of example_global_comparison = Some ''global.png''"
  by (simp add: example_global_comparison_def)

lemma example_plot_1D_args:
  "with_dpi None example_plot_1D = example_plot_1D \<and>
   with_titleFontSize None example_plot_1D = example_plot_1D \<and>
   title_of example_plot_1D = Some ''MOC'' \<and>
   fileout_of example_plot_1D = Some ''plot_1D.png''"
  by (simp add: example_plot_1D_def)

lemma example_vertical_section_args:
  "with_dpi None example_vertical_section = example_vertical_section \<and>
   with_titleFontSize None example_vertical_section = example_vertical_section \<and>
   title_of example_vertical_section = Some ''Transect'' \<and>
   fileout_of example_vertical_section = Some ''section.png''"
  by (simp add: example_vertical_section_def)

theorem omitted_parameters_fall_back_witness:
  "run example_env example_timeseries (example_world [] None)
     = run example_env (with_dpi (Some 200) example_timeseries) (example_world [] None) \<and>
   run example_env example_timeseries (example_world [] None)
     = run example_env (with_titleFontSize (Some (SizeStr ''16'')) example_timeseries)
         (example_world [] None) \<and>
   (\<exists>es. events (snd (run example_env example_timeseries (example_world [] None)))
           = events (example_world [] None) @ es \<and>
         dpis es = [200, 200]) \<and>
   (\<exists>es. events (snd (run example_env example_timeseries (example_world [] None)))
           = events (example_world [] None) @ es \<and>
         (''SST'', SizeStr ''16'') \<in> set (title_fonts es)) \<and>
   (\<exists>es. events (snd (run example_env example_timeseries_polar (example_world [] None)))
           = events (example_world [] None) @ es \<and>
         dpis es = [200, 200]) \<and>
   (\<exists>es. events (snd (run example_env example_timeseries_polar (example_world [] None)))
           = events (example_world [] None) @ es \<and>
         (''Ice area'', SizeStr ''16'') \<in> set (title_fonts es)) \<and>
   (\<exists>es. events (snd (run example_env example_polar_comparison (example_world [] None)))
           = events (example_world [] None) @ es \<and>
         dpis es = [200, 200]) \<and>
   (\<exists>es. events (snd (run example_env example_polar_comparison (example_world [] None)))
           = events (example_world [] None) @ es \<and>
         (''Ice concentration'', SizeStr ''16'') \<in> set (title_fonts es)) \<and>
   (\<exists>es. events (snd (run example_env example_global_comparison (example_world [] None)))
           = events (example_world [] None) @ es \<and>
         dpis es = [200, 200]) \<and>
   (\<exists>es. events (snd (run example_env example_global_comparison (example_world [] None)))
           = events (example_world [] None) @ es \<and>
         (''SST'', SizeStr ''16'') \<in> set (title_fonts es)) \<and>
   (\<exists>es. events (snd (run example_env example_plot_1D (example_world [] None)))
           = events (example_world [] None) @ es \<and>
         dpis es = [200, 200]) \<and>
   (\<exists>es. events (snd (run example_env example_plot_1D (example_world [] None)))
           = events (example_world [] None) @ es \<and>
         (''MOC'', SizeStr ''16'') \<in> set (title_fonts es)) \<and>
   (\<exists>es. events (snd (run example_env example_vertical_section (example_world [] None)))
           = events (example_world [] None) @ es \<and>
         dpis es = [200, 200]) \<and>
   (\<exists>es. events (snd (run example_env example_vertical_section (example_world [] None)))
           = events (example_world [] None) @ es \<and>
         (''Transect'', SizeStr ''16'') \<in> set (title_fonts es))"
proof -
  have d: "cfg_getint (config (example_world [] None)) ''plot'' ''dpi'' = Inr 200"
    by (simp add: example_world_def example_config_def)
  have s: "cfg_get (config (example_world [] None)) ''plot'' ''titleFontSize'' = Inr ''16''"
    by (simp add: example_world_def example_config_def)
  note fall_back = omitted_parameters_fall_back[OF d s, where env = example_env]
  note effect = fall_back[THEN conjunct2, THEN conjunct2]
  have same1:
    "run example_env example_timeseries (example_world [] None)
       = run example_env (with_dpi (Some 200) example_timeseries) (example_world [] None)"
    using fall_back[of example_timeseries, THEN conjunct1] example_timeseries_args by simp
  have same2:
    "run example_env example_timeseries (example_world [] None)
       = run example_env (with_titleFontSize (Some (SizeStr ''16'')) example_timeseries)
           (example_world [] None)"
    using fall_back[of example_timeseries, THEN conjunct2, THEN conjunct1]
      example_timeseries_args
    by simp
  have effects:
    "(\<exists>es. events (snd (run example_env example_timeseries (example_world [] None)))
             = events (example_world [] None) @ es \<and>
           dpis es = [200, 200]) \<and>
     (\<exists>es. events (snd (run example_env example_timeseries (example_world [] None)))
             = events (example_world [] None) @ es \<and>
           (''SST'', SizeStr ''16'') \<in> set (title_fonts es)) \<and>
     (\<exists>es. events (snd (run example_env example_timeseries_polar (example_world [] None)))
             = events (example_world [] None) @ es \<and>
           dpis es = [200, 200]) \<and>
     (\<exists>es. events (snd (run example_env example_timeseries_polar (example_world [] None)))
             = events (example_world [] None) @ es \<and>
           (''Ice area'', SizeStr ''16'') \<in> set (title_fonts es)) \<and>
     (\<exists>es. events (snd (run example_env example_polar_comparison (example_world [] None)))
             = events (example_world [] None) @ es \<and>
           dpis es = [200, 200]) \<and>
     (\<exists>es. events (snd (run example_env example_polar_comparison (example_world [] None)))
             = events (example_world [] None) @ es \<and>
           (''Ice concentration'', SizeStr ''16'') \<in> set (title_fonts es)) \<and>
     (\<exists>es. events (snd (run example_env example_global_comparison (example_world [] None)))
             = events (example_world [] None) @ es \<and>
           dpis es = [200, 200]) \<and>
     (\<exists>es. events (snd (run example_env example_global_comparison (example_world [] None)))
             = events (example_world [] None) @ es \<and>
           (''SST'', SizeStr ''16'') \<in> set (title_fonts es)) \<and>
     (\<exists>es. events (snd (run example_env example_plot_1D (example_world [] None)))
             = events (example_world [] None) @ es \<and>
           dpis es = [200, 200]) \<and>
     (\<exists>es. events (snd (run example_env example_plot_1D (example_world [] None)))
             = events (example_world [] None) @ es \<and>
           (''MOC'', SizeStr ''16'') \<in> set (title_fonts es)) \<and>
     (\<exists>es. events (snd (run example_env example_vertical_section (example_world [] None)))
             = events (example_world [] None) @ es \<and>
           dpis es = [200, 200]) \<and>
     (\<exists>es. events (snd (run example_env example_vertical_section (example_world [] None)))
             = events (example_world [] None) @ es \<and>
           (''Transect'', SizeStr ''16'') \<in> set (title_fonts es))"
    using
      effect[of example_timeseries "''SST''"]
      effect[of example_timeseries_polar "''Ice area''"]
      effect[of example_polar_comparison "''Ice concentration''"]
      effect[of example_global_comparison "''SST''"]
      effect[of example_plot_1D "''MOC''"]
      effect[of example_vertical_section "''Transect''"]
      example_timeseries_args example_timeseries_polar_args example_polar_comparison_args
      example_global_comparison_args example_plot_1D_args example_vertical_section_args
      example_timeseries_returns example_timeseries_polar_returns example_polar_comparison_returns
      example_global_comparison_returns example_plot_1D_returns example_vertical_section_returns
    by simp
  show ?thesis
    by (rule conjI[OF same1], rule conjI[OF same2], rule effects)
qed














































end
